theory Spec2Isabelle
  imports Main "HOL-Library.Word" "HOL-Library.Signed_Division"
begin

unbundle bit_operations_syntax

section \<open>Machine integers of the Go source\<close>

text \<open>
  Go's fixed-width integers are words; the signed ones are read with \<open>sint\<close> and
  compared with \<open>word_sless\<close> and \<open>word_sle\<close>.  Go's \<open>int\<close> and \<open>uint\<close> are 64 bits
  wide (the constant \<open>baseSubsidy\<close> does not fit a 32-bit \<open>uint\<close>, so the package only
  compiles for 64-bit targets).  \<open>math/big\<close> integers are \<open>int\<close>; \<open>[]byte\<close> is a list
  of bytes.
\<close>

type_synonym byte = "8 word"
type_synonym int32 = "32 word"
type_synonym uint32 = "32 word"
type_synonym int64 = "64 word"
type_synonym uint64 = "64 word"
type_synonym go_int = "64 word"
type_synonym go_uint = "64 word"

text \<open>Go's \<open>/\<close> on signed integers truncates towards zero and wraps on \<open>Min / -1\<close>.\<close>

definition go_div_i32 :: "int32 \<Rightarrow> int32 \<Rightarrow> int32" where
  "go_div_i32 a b = word_of_int (sint a sdiv sint b)"

definition go_div_i64 :: "int64 \<Rightarrow> int64 \<Rightarrow> int64" where
  "go_div_i64 a b = word_of_int (sint a sdiv sint b)"

definition MaxUint32 :: uint32 where
  "MaxUint32 = 0xFFFFFFFF"

section \<open>Errors, panics and results\<close>

text \<open>
  The error codes of \<open>ruleError\<close> that the modelled functions produce.  The formatted
  description string of a rule error is left out: a rule error is its code.
\<close>

datatype ErrorCode =
    ErrNoTxInputs | ErrNoTxOutputs | ErrTxTooBig | ErrTxTooSmall | ErrTxTooManySigOps
  | ErrBadTxOutValue | ErrDuplicateTxInputs | ErrBadCoinbaseScriptLen | ErrBadTxInput
  | ErrMissingCoinbaseHeight | ErrMissingTxOut | ErrSpentTxOut | ErrImmatureSpend
  | ErrSpendTooHigh | ErrBadFees | ErrTooManySigOps | ErrBadCoinbaseValue
  | ErrPrevBlockNotBest | ErrUnfinalizedTx

text \<open>
  A Go \<open>error\<close> value: a rule error, an \<open>errors.New\<close> with its message (for a message
  built with \<open>fmt.Sprintf\<close> the text up to the first formatted operand), or the
  \<open>czzutil.OutOfRangeError\<close> of \<open>Block.Tx\<close>.
\<close>

datatype error = RuleError ErrorCode | ErrorsNew string | OutOfRangeError

datatype panic = IndexOutOfRange | IntegerDivideByZero | NilPointerDereference | InvalidArgument

text \<open>
  What a call does: it returns a value with a nil error (\<open>Ok\<close>), returns a non-nil error
  (\<open>Err\<close>), or panics (\<open>Panic\<close>).  A panic is not a returned error: it unwinds the
  caller as well.
\<close>

datatype 'a result = Ok 'a | Err error | Panic panic

fun and_then :: "'a result \<Rightarrow> ('a \<Rightarrow> 'b result) \<Rightarrow> 'b result" where
  "and_then (Ok v) f = f v"
| "and_then (Err e) f = Err e"
| "and_then (Panic p) f = Panic p"

section \<open>Compact encoding of big integers (difficulty.go)\<close>

text \<open>\<open>len(n.Bytes())\<close>: the number of bytes of the absolute value.\<close>

function byte_length :: "int \<Rightarrow> nat" where
  "byte_length n = (if n \<le> 0 then 0 else Suc (byte_length (n div 256)))"
  by pat_completeness auto
termination
  by (relation "measure nat") auto

declare byte_length.simps [simp del]

definition big_Bytes_len :: "int \<Rightarrow> nat" where
  "big_Bytes_len n = byte_length \<bar>n\<bar>"

text \<open>
  \<open>uint32(n.Bits()[0])\<close>: the least significant word of the absolute value, cut to 32
  bits.  It is only evaluated for \<open>n \<noteq> 0\<close> (\<open>Bits()\<close> of zero is empty).
\<close>

definition big_Bits0_uint32 :: "int \<Rightarrow> uint32" where
  "big_Bits0_uint32 n = word_of_int \<bar>n\<bar>"

definition CompactToBig :: "uint32 \<Rightarrow> int" where
  "CompactToBig compact =
     (let mantissa = compact AND 0x007fffff;
          isNegative = (compact AND 0x00800000 \<noteq> 0);
          exponent = unat (drop_bit 24 compact);
          bn = (if exponent \<le> 3
                then uint (drop_bit (8 * (3 - exponent)) mantissa)
                else uint mantissa * 2 ^ (8 * (exponent - 3)))
      in if isNegative then - bn else bn)"

text \<open>
  \<open>Rsh\<close> on a \<open>big.Int\<close> is an arithmetic shift (it rounds towards minus infinity), as
  \<open>div\<close> by a power of two does on \<open>int\<close>.  \<open>uint32(exponent<<24)\<close> keeps the low 32 bits.
\<close>

definition BigToCompact :: "int \<Rightarrow> uint32" where
  "BigToCompact n =
     (if n = 0 then 0
      else
        let exponent = big_Bytes_len n;
            mantissa = (if exponent \<le> 3
                        then push_bit (8 * (3 - exponent)) (big_Bits0_uint32 n)
                        else big_Bits0_uint32 (n div 2 ^ (8 * (exponent - 3))));
            (mantissa, exponent) =
               (if mantissa AND 0x00800000 \<noteq> 0
                then (drop_bit 8 mantissa, exponent + 1)
                else (mantissa, exponent));
            compact = (word_of_nat (exponent * 2 ^ 24) :: uint32) OR mantissa
        in if n < 0 then compact OR 0x00800000 else compact)"

text \<open>
  The spec's reading of the round trip, written without the code's byte length: drop
  low-order bytes until what is left fits the 23 bits of the mantissa, and put zero bytes
  back in their place.
\<close>

function drop_bytes :: "int \<Rightarrow> nat" where
  "drop_bytes n = (if n < 2 ^ 23 then 0 else Suc (drop_bytes (n div 256)))"
  by pat_completeness auto
termination
  by (relation "measure nat") auto

declare drop_bytes.simps [simp del]

definition truncate_mantissa :: "int \<Rightarrow> int" where
  "truncate_mantissa n = (n div 256 ^ drop_bytes n) * 256 ^ drop_bytes n"

section \<open>Chain parameters and block index nodes\<close>

text \<open>The fields of \<open>chaincfg.Params\<close> that \<open>validate.go\<close> and \<open>difficulty.go\<close> read.\<close>

record chaincfg_Params =
  SubsidyReductionInterval :: int32
  EntangleHeight :: int32
  CoinbaseMaturity :: "16 word"
  GenesisHash :: "byte list"
  PowLimit :: int
  PowLimitBits :: uint32
  NoDifficultyAdjustment :: bool

text \<open>
  Modelled from the spec: \<open>blockNode\<close> (blockindex.go is not among the sources) is the
  spec's BlockNode, "parent pointer, height, bits, timestamp, work_sum", with the block
  hash that \<open>checkConnectBlock\<close> compares; \<open>RelativeAncestor(1)\<close> is the spec's
  \<open>P.parent\<close>.
\<close>

datatype blockNode =
  BlockNode (parent: "blockNode option") (hash: "byte list") (height: int32) (bits: uint32)
    (timestamp: int64) (workSum: int)

definition RelativeAncestor1 :: "blockNode \<Rightarrow> blockNode option" where
  "RelativeAncestor1 node = parent node"

section \<open>Difficulty retargeting (difficulty.go)\<close>

text \<open>
  \<open>big.Int.Div\<close> is Euclidean division: the remainder is never negative.  It panics
  on a zero divisor; the callers below check for it.
\<close>

definition big_Div :: "int \<Rightarrow> int \<Rightarrow> int" where
  "big_Div x y = (if 0 < y then x div y else - (x div (- y)))"

definition DifficultyBoundDivisor :: int where
  "DifficultyBoundDivisor = 128"

text \<open>
  \<open>calcNextRequiredDifficulty\<close>; \<open>newBlockTime\<close> is the block time's \<open>Unix()\<close> seconds.
  The two places where the Go code can panic are branches: \<open>RelativeAncestor(1)\<close> of a
  node without parent is nil, and \<open>Div\<close> panics on \<open>newDifficulty = 0\<close>.
\<close>

definition calcNextRequiredDifficulty ::
    "chaincfg_Params \<Rightarrow> blockNode option \<Rightarrow> int64 \<Rightarrow> uint32 result" where
  "calcNextRequiredDifficulty chainParams lastNode newBlockTime =
     (case lastNode of
        None \<Rightarrow> Ok (PowLimitBits chainParams)
      | Some node \<Rightarrow>
          if NoDifficultyAdjustment chainParams then Ok (bits node)
          else
            let bigTime = sint newBlockTime;
                bigParentTime = sint (timestamp node);
                x = 1 - big_Div (bigTime - bigParentTime) 30;
                x = (if x < - 99 then - 99 else x)
            in and_then
                 (if height node \<noteq> 0
                  then (case RelativeAncestor1 node of
                          None \<Rightarrow> Panic NilPointerDereference
                        | Some p \<Rightarrow> Ok (workSum node - workSum p))
                  else Ok (workSum node))
                 (\<lambda>difficulty.
                    let y = difficulty * x;
                        x = big_Div y DifficultyBoundDivisor;
                        newDifficulty = difficulty + x;
                        e = 2 ^ 256;
                        nt = e - newDifficulty
                    in if newDifficulty = 0 then Panic IntegerDivideByZero
                       else
                         let newTarget = big_Div nt newDifficulty;
                             newTarget = (if PowLimit chainParams < newTarget
                                          then PowLimit chainParams else newTarget)
                         in Ok (BigToCompact newTarget)))"

text \<open>
  The spec's formula for the retarget (section 4.4), for the comparison with the code:
  \<open>x = max(1 - (block_time - parent_time) // 30, -99)\<close>,
  \<open>diff = P.work_sum - P.parent.work_sum\<close> (or \<open>P.work_sum\<close> at height 0) and
  \<open>newD = diff + (diff * x) / 128\<close>.
\<close>

definition spec_x :: "blockNode \<Rightarrow> int64 \<Rightarrow> int" where
  "spec_x P t = max (1 - (sint t - sint (timestamp P)) div 30) (- 99)"

definition spec_diff :: "blockNode \<Rightarrow> int" where
  "spec_diff P =
     (if height P = 0 then workSum P
      else (case parent P of None \<Rightarrow> workSum P | Some Q \<Rightarrow> workSum P - workSum Q))"

definition spec_newD :: "blockNode \<Rightarrow> int64 \<Rightarrow> int" where
  "spec_newD P t = spec_diff P + (spec_diff P * spec_x P t) div 128"

text \<open>\<open>CalcWork\<close>: the work a block of the given difficulty bits adds to \<open>workSum\<close>.\<close>

definition CalcWork :: "uint32 \<Rightarrow> int" where
  "CalcWork bits' =
     (let difficultyNum = CompactToBig bits'
      in if difficultyNum \<le> 0 then 0
         else big_Div (2 ^ 256) (difficultyNum + 1))"


section \<open>Transactions, blocks and the utxo view\<close>

record wire_OutPoint =
  Hash :: "byte list"
  Index :: uint32

record wire_TxIn =
  PreviousOutPoint :: wire_OutPoint
  SignatureScript :: "byte list"
  Sequence :: uint32

record wire_TxOut =
  Value :: int64
  PkScript :: "byte list"

record wire_MsgTx =
  Version :: int32
  TxIn :: "wire_TxIn list"
  TxOut :: "wire_TxOut list"
  LockTime :: uint32

text \<open>
  A \<open>czzutil.Block\<close> as the validator reads it: the header's previous block hash, the
  transactions and the height cached in the block (\<open>block.Height()\<close>).
\<close>

record czzutil_Block =
  PrevBlock :: "byte list"
  Transactions :: "wire_MsgTx list"
  block_Height :: int32

definition zeroHash :: "byte list" where
  "zeroHash = replicate 32 0"

text \<open>\<open>block.Tx(i)\<close> fails with an \<open>OutOfRangeError\<close> outside the transaction list.\<close>

definition Block_Tx :: "czzutil_Block \<Rightarrow> nat \<Rightarrow> wire_MsgTx result" where
  "Block_Tx block i =
     (if i < length (Transactions block) then Ok (Transactions block ! i)
      else Err OutOfRangeError)"

text \<open>
  Modelled from the spec: \<open>UtxoEntry\<close> and \<open>UtxoViewpoint\<close> (utxoviewpoint.go is not among
  the sources) are the spec's UtxoEntry "(amount, pk_script, block_height, is_coinbase,
  is_pool, spent)" and UtxoView, "a mapping OutPoint \<rightarrow> UtxoEntry"; \<open>LookupEntry\<close> is
  the application of the map, and nil is \<open>None\<close>.
\<close>

record UtxoEntry =
  amount :: int64
  pkScript :: "byte list"
  blockHeight :: int32
  IsCoinBase_flag :: bool
  IsPool_flag :: bool
  IsSpent_flag :: bool

type_synonym UtxoViewpoint = "wire_OutPoint \<Rightarrow> UtxoEntry option"

definition LookupEntry :: "UtxoViewpoint \<Rightarrow> wire_OutPoint \<Rightarrow> UtxoEntry option" where
  "LookupEntry view outpoint = view outpoint"

typedecl SpentTxOut

section \<open>Script flags\<close>

text \<open>
  Modelled from the spec: \<open>txscript.ScriptFlags\<close> (package txscript is not among the
  sources) is the spec's "flag set": each flag constant is one bit of the mask, so a mask
  is the set of its flags, \<open>|=\<close> is union and \<open>HasFlag\<close> is membership.
\<close>

datatype ScriptFlag =
    ScriptBip16 | ScriptVerifyDERSignatures | ScriptVerifyCheckLockTimeVerify
  | ScriptVerifyStrictEncoding | ScriptVerifyBip143SigHash | ScriptVerifyLowS
  | ScriptVerifyNullFail | ScriptVerifySigPushOnly | ScriptVerifyCleanStack
  | ScriptVerifyCheckDataSig | ScriptVerifySchnorr | ScriptVerifyAllowSegwitRecovery
  | ScriptVerifyCheckSequenceVerify

type_synonym ScriptFlags = "ScriptFlag set"

definition HasFlag :: "ScriptFlags \<Rightarrow> ScriptFlag \<Rightarrow> bool" where
  "HasFlag scriptFlags flag = (flag \<in> scriptFlags)"

section \<open>Entangle data (package cross)\<close>

text \<open>
  Modelled from the spec: the entangle types of package cross (czzTx.go is not among the
  sources) are the spec's EntangleTxInfo "(ex_type: {Doge=240, Ltc=241}, index: u32,
  height: u64, amount: bigint, ext_tx_hash: bytes)" and KeepedAmount "(count: u8, items:
  list of (ex_type, amount))".
\<close>

type_synonym ExpandedTxType = byte

definition ExpandedTxEntangle_Doge :: ExpandedTxType where
  "ExpandedTxEntangle_Doge = 240"

definition ExpandedTxEntangle_Ltc :: ExpandedTxType where
  "ExpandedTxEntangle_Ltc = 241"

record EntangleTxInfo =
  ExTxType :: ExpandedTxType
  info_Index :: uint32
  Height :: uint64
  Amount :: int
  ExtTxHash :: "byte list"

record KeepedItem =
  item_ExTxType :: ExpandedTxType
  item_Amount :: int

record KeepedAmount =
  Count :: byte
  Items :: "KeepedItem list"

record EntangleItem =
  EType :: ExpandedTxType
  item_Value :: int

record TuplePubIndex =
  tuple_EType :: ExpandedTxType
  tuple_Index :: uint32
  Pub :: "byte list"

record EtsInfo =
  FeePerKB :: int64
  Tx :: wire_MsgTx

text \<open>\<open>x.Int64()\<close> of a \<open>big.Int\<close>: the low 64 bits, with the sign.\<close>

definition big_Int64 :: "int \<Rightarrow> int64" where
  "big_Int64 x = word_of_int x"

section \<open>Functions and constants of packages that are not among the sources\<close>

text \<open>
  \<open>validate.go\<close> and \<open>verifyEntangle.go\<close> call into \<open>czzutil\<close>, \<open>wire\<close>, \<open>txscript\<close>,
  \<open>chaincfg\<close>, \<open>cross\<close> and \<open>math/rand\<close>.  What they call is a parameter of the model: one
  record of the constants and functions, named as the Go code names them.  A function
  that returns an error in Go returns a \<open>result\<close>.  \<open>IsEntangleTx\<close> returns the map of
  output index to entangle info as an association list (\<open>None\<close> for the nil map).
\<close>

type_synonym ScriptClass = byte

record extern =
  SatoshiPerBitcoin :: int
  MaxSatoshi :: int
  NewAddressPubKeyHash :: "byte list \<Rightarrow> chaincfg_Params \<Rightarrow> string result"
  NewLegacyAddressScriptHash :: "byte list \<Rightarrow> byte \<Rightarrow> string result"
  MainNetParams :: chaincfg_Params
  SerializeSize :: "wire_MsgTx \<Rightarrow> go_int"
  BlockSerializeSize :: "czzutil_Block \<Rightarrow> go_int"
  OP_0 :: int
  OP_1 :: int
  OP_16 :: int
  PubKeyHashTy :: ScriptClass
  GetSigOpCount :: "byte list \<Rightarrow> ScriptFlags \<Rightarrow> go_int"
  GetPreciseSigOpCount :: "byte list \<Rightarrow> byte list \<Rightarrow> ScriptFlags \<Rightarrow> go_int"
  IsPayToScriptHash :: "byte list \<Rightarrow> bool"
  GetScriptClass :: "byte list \<Rightarrow> ScriptClass"
  ExtractPkScriptPub :: "byte list \<Rightarrow> byte list result"
  ExtractPkScriptAddrs :: "byte list \<Rightarrow> chaincfg_Params \<Rightarrow> ScriptClass \<times> string list \<times> go_int"
  ComputePk :: "byte list \<Rightarrow> byte list result"
  IsEntangleTx :: "wire_MsgTx \<Rightarrow> (uint32 \<times> EntangleTxInfo) list option"
  VerifyTxsSequence :: "EtsInfo list \<Rightarrow> unit result"
  KeepedAmount_Parse :: "byte list \<Rightarrow> KeepedAmount result"
  KeepedAmount_Add :: "KeepedAmount \<Rightarrow> KeepedItem \<Rightarrow> KeepedAmount"
  PreCalcEntangleAmount :: "EntangleItem \<Rightarrow> KeepedAmount \<Rightarrow> EntangleItem \<times> KeepedAmount"
  rand_Intn :: "nat \<Rightarrow> nat"


section \<open>Constants of validate.go\<close>

definition oneMegabyte :: go_int where "oneMegabyte = 1000000"
definition MinCoinbaseScriptLen :: go_int where "MinCoinbaseScriptLen = 2"
definition MaxCoinbaseScriptLen :: go_int where "MaxCoinbaseScriptLen = 100"
definition MaxBlockSigOpsPerMB :: go_int where "MaxBlockSigOpsPerMB = 20000"
definition MaxTransactionSize :: go_int where "MaxTransactionSize = oneMegabyte"
definition MinTransactionSize :: go_int where "MinTransactionSize = 100"
definition MaxTransactionSigOps :: go_int where "MaxTransactionSigOps = 20000"

definition baseSubsidy :: "extern \<Rightarrow> int" where
  "baseSubsidy x = 1000 * SatoshiPerBitcoin x"

definition MaxBlockSigOps :: "uint32 \<Rightarrow> go_int" where
  "MaxBlockSigOps nBlockBytes =
     (let nBlockMBytesRoundedUp = 1 + go_div_i64 (ucast nBlockBytes - 1) oneMegabyte
      in nBlockMBytesRoundedUp * MaxBlockSigOpsPerMB)"

section \<open>Block subsidy\<close>

text \<open>
  \<open>CalcBlockSubsidy\<close>.  \<open>halvings\<close> is the \<open>int32\<close> quotient converted to \<open>uint\<close> (sign
  extension), the constant \<open>baseSubsidy\<close> is converted to \<open>uint\<close> for the unsigned
  division, and the quotient is converted to \<open>int64\<close>.
\<close>

definition CalcBlockSubsidy :: "extern \<Rightarrow> int32 \<Rightarrow> chaincfg_Params \<Rightarrow> int64" where
  "CalcBlockSubsidy x height' chainParams =
     (if SubsidyReductionInterval chainParams = 0 then word_of_int (baseSubsidy x)
      else
        let halvings = (scast (go_div_i32 height' (SubsidyReductionInterval chainParams)) :: go_uint)
        in if halvings = 0 then word_of_int (baseSubsidy x)
           else
             let subsidy = (word_of_int (baseSubsidy x) :: go_uint) div halvings
             in if subsidy = 0 then 1 else subsidy)"

section \<open>Coinbase recognition\<close>

definition isNullOutpoint :: "wire_OutPoint \<Rightarrow> bool" where
  "isNullOutpoint outpoint = (Index outpoint = MaxUint32 \<and> Hash outpoint = zeroHash)"

text \<open>\<open>binary.LittleEndian.Uint64\<close> of a byte slice.\<close>

fun LittleEndian_Uint64 :: "byte list \<Rightarrow> uint64" where
  "LittleEndian_Uint64 [] = 0"
| "LittleEndian_Uint64 (b # bs) = ucast b + 256 * LittleEndian_Uint64 bs"

text \<open>
  \<open>ExtractCoinbaseHeight\<close>.  \<open>TxIn[0]\<close> of a transaction without inputs is an index out
  of range.  \<open>copy\<close> fills the 8-byte buffer with at most 8 of the \<open>serializedLen\<close> bytes
  that follow the length byte.
\<close>

definition ExtractCoinbaseHeight :: "extern \<Rightarrow> wire_MsgTx \<Rightarrow> int32 result" where
  "ExtractCoinbaseHeight x coinbaseTx =
     (case TxIn coinbaseTx of
        [] \<Rightarrow> Panic IndexOutOfRange
      | txIn0 # _ \<Rightarrow>
          (case SignatureScript txIn0 of
             [] \<Rightarrow> Err (RuleError ErrMissingCoinbaseHeight)
           | b0 # rest \<Rightarrow>
               let opcode = uint b0 in
               if opcode = OP_0 x then Ok 0
               else if OP_1 x \<le> opcode \<and> opcode \<le> OP_16 x
               then Ok (word_of_int (opcode - (OP_1 x - 1)))
               else
                 let serializedLen = unat b0 in
                 if length rest < serializedLen then Err (RuleError ErrMissingCoinbaseHeight)
                 else
                   let copied = take 8 (take serializedLen rest);
                       serializedHeightBytes = copied @ replicate (8 - length copied) 0;
                       serializedHeight = LittleEndian_Uint64 serializedHeightBytes
                   in Ok (ucast serializedHeight)))"

text \<open>
  \<open>isCoinBaseInParam\<close>; \<open>IsCoinBaseTx\<close> has the same body with
  \<open>chaincfg.MainNetParams\<close> for the parameters, and \<open>IsCoinBase\<close> calls it.
\<close>

definition isCoinBaseInParam :: "extern \<Rightarrow> wire_MsgTx \<Rightarrow> chaincfg_Params \<Rightarrow> bool result" where
  "isCoinBaseInParam x msgTx chainParams =
     (case ExtractCoinbaseHeight x msgTx of
        Panic p \<Rightarrow> Panic p
      | Err e \<Rightarrow> Ok False
      | Ok height' \<Rightarrow>
          if (if EntangleHeight chainParams \<le>s height'
              then length (TxIn msgTx) \<noteq> 3 else length (TxIn msgTx) \<noteq> 1)
          then Ok False
          else
            (case TxIn msgTx of
               [] \<Rightarrow> Panic IndexOutOfRange
             | txIn0 # _ \<Rightarrow>
                 let prevOut = PreviousOutPoint txIn0 in
                 if Index prevOut \<noteq> MaxUint32 \<or> Hash prevOut \<noteq> zeroHash then Ok False
                 else Ok True))"

definition IsCoinBaseTx :: "extern \<Rightarrow> wire_MsgTx \<Rightarrow> bool result" where
  "IsCoinBaseTx x msgTx = isCoinBaseInParam x msgTx (MainNetParams x)"

definition IsCoinBase :: "extern \<Rightarrow> wire_MsgTx \<Rightarrow> bool result" where
  "IsCoinBase x tx = IsCoinBaseTx x tx"

section \<open>Signature operation counts\<close>

definition CountSigOps :: "extern \<Rightarrow> wire_MsgTx \<Rightarrow> ScriptFlags \<Rightarrow> go_int" where
  "CountSigOps x tx scriptFlags =
     (let totalSigOps =
            foldl (\<lambda>totalSigOps txIn.
                     totalSigOps + GetSigOpCount x (SignatureScript txIn) scriptFlags)
                  0 (TxIn tx)
      in foldl (\<lambda>totalSigOps txOut.
                  totalSigOps + GetSigOpCount x (PkScript txOut) scriptFlags)
               totalSigOps (TxOut tx))"

text \<open>The loop of \<open>CountP2SHSigOps\<close> over the inputs, with its accumulator.\<close>

fun CountP2SHSigOps_loop ::
    "extern \<Rightarrow> UtxoViewpoint \<Rightarrow> ScriptFlags \<Rightarrow> go_int \<Rightarrow> wire_TxIn list \<Rightarrow> go_int result" where
  "CountP2SHSigOps_loop x utxoView scriptFlags totalSigOps [] = Ok totalSigOps"
| "CountP2SHSigOps_loop x utxoView scriptFlags totalSigOps (txIn # rest) =
     (case LookupEntry utxoView (PreviousOutPoint txIn) of
        None \<Rightarrow> Err (RuleError ErrMissingTxOut)
      | Some utxo \<Rightarrow>
          if IsSpent_flag utxo then Err (RuleError ErrSpentTxOut)
          else if \<not> IsPayToScriptHash x (pkScript utxo)
          then CountP2SHSigOps_loop x utxoView scriptFlags totalSigOps rest
          else
            let numSigOps = GetPreciseSigOpCount x (SignatureScript txIn) (pkScript utxo) scriptFlags;
                lastSigOps = totalSigOps;
                totalSigOps = totalSigOps + numSigOps
            in if totalSigOps <s lastSigOps then Err (RuleError ErrTooManySigOps)
               else CountP2SHSigOps_loop x utxoView scriptFlags totalSigOps rest)"

definition CountP2SHSigOps ::
    "extern \<Rightarrow> wire_MsgTx \<Rightarrow> bool \<Rightarrow> UtxoViewpoint \<Rightarrow> ScriptFlags \<Rightarrow> go_int result" where
  "CountP2SHSigOps x tx isCoinBaseTx utxoView scriptFlags =
     (if isCoinBaseTx then Ok 0
      else CountP2SHSigOps_loop x utxoView scriptFlags 0 (TxIn tx))"

text \<open>
  \<open>GetSigOps\<close>: a failure of \<open>CountP2SHSigOps\<close> is answered with \<open>return 0, nil\<close>.
\<close>

definition GetSigOps ::
    "extern \<Rightarrow> wire_MsgTx \<Rightarrow> bool \<Rightarrow> UtxoViewpoint \<Rightarrow> ScriptFlags \<Rightarrow> go_int result" where
  "GetSigOps x tx isCoinBaseTx utxoView scriptFlags =
     (let numSigOps = CountSigOps x tx scriptFlags
      in if HasFlag scriptFlags ScriptBip16
         then (case CountP2SHSigOps x tx isCoinBaseTx utxoView scriptFlags of
                 Err e \<Rightarrow> Ok 0
               | Panic p \<Rightarrow> Panic p
               | Ok numP2SHSigOps \<Rightarrow> Ok (numSigOps + numP2SHSigOps))
         else Ok numSigOps)"

section \<open>Transaction sanity\<close>

text \<open>The loop of \<open>CheckTransactionSanity\<close> over the outputs, with \<open>totalSatoshi\<close>.\<close>

fun checkOutputValues :: "extern \<Rightarrow> int64 \<Rightarrow> wire_TxOut list \<Rightarrow> unit result" where
  "checkOutputValues x totalSatoshi [] = Ok ()"
| "checkOutputValues x totalSatoshi (txOut # rest) =
     (let satoshi = Value txOut in
      if satoshi <s 0 then Err (RuleError ErrBadTxOutValue)
      else if word_of_int (MaxSatoshi x) <s satoshi then Err (RuleError ErrBadTxOutValue)
      else
        let totalSatoshi = totalSatoshi + satoshi in
        if totalSatoshi <s 0 then Err (RuleError ErrBadTxOutValue)
        else if word_of_int (MaxSatoshi x) <s totalSatoshi then Err (RuleError ErrBadTxOutValue)
        else checkOutputValues x totalSatoshi rest)"

text \<open>The duplicate-input loop, with the set \<open>existingTxOut\<close> of outpoints seen so far.\<close>

fun checkDuplicateInputs :: "wire_OutPoint set \<Rightarrow> wire_TxIn list \<Rightarrow> unit result" where
  "checkDuplicateInputs existingTxOut [] = Ok ()"
| "checkDuplicateInputs existingTxOut (txIn # rest) =
     (if PreviousOutPoint txIn \<in> existingTxOut then Err (RuleError ErrDuplicateTxInputs)
      else checkDuplicateInputs (insert (PreviousOutPoint txIn) existingTxOut) rest)"

fun checkNullInputs :: "wire_TxIn list \<Rightarrow> unit result" where
  "checkNullInputs [] = Ok ()"
| "checkNullInputs (txIn # rest) =
     (if isNullOutpoint (PreviousOutPoint txIn) then Err (RuleError ErrBadTxInput)
      else checkNullInputs rest)"

definition CheckTransactionSanity ::
    "extern \<Rightarrow> wire_MsgTx \<Rightarrow> bool \<Rightarrow> ScriptFlags \<Rightarrow> unit result" where
  "CheckTransactionSanity x tx magneticAnomalyActive scriptFlags =
     (if length (TxIn tx) = 0 then Err (RuleError ErrNoTxInputs)
      else if length (TxOut tx) = 0 then Err (RuleError ErrNoTxOutputs)
      else
        let serializedTxSize = SerializeSize x tx in
        if MaxTransactionSize <s serializedTxSize then Err (RuleError ErrTxTooBig)
        else if magneticAnomalyActive \<and> serializedTxSize <s MinTransactionSize
        then Err (RuleError ErrTxTooSmall)
        else
          let sigOps = CountSigOps x tx scriptFlags in
          if MaxTransactionSigOps <s sigOps then Err (RuleError ErrTxTooManySigOps)
          else
            and_then (checkOutputValues x 0 (TxOut tx)) (\<lambda>_.
            and_then (checkDuplicateInputs {} (TxIn tx)) (\<lambda>_.
            and_then (IsCoinBase x tx) (\<lambda>isCoinBase.
              if isCoinBase then
                (case TxIn tx of
                   [] \<Rightarrow> Panic IndexOutOfRange
                 | txIn0 # _ \<Rightarrow>
                     let slen = (word_of_nat (length (SignatureScript txIn0)) :: go_int) in
                     if slen <s MinCoinbaseScriptLen \<or> MaxCoinbaseScriptLen <s slen
                     then Err (RuleError ErrBadCoinbaseScriptLen)
                     else Ok ())
              else checkNullInputs (TxIn tx)))))"


section \<open>Entangle verification (verifyEntangle.go)\<close>

definition dogePoolAddr :: string where
  "dogePoolAddr = ''DNGzkoZbnVMihLTMq8M1m7L62XvN3d2cN2''"

definition ltcPoolAddr :: string where
  "ltcPoolAddr = ''MUy9qiaLQtaqmKBSk27FXrEEfUkRBeddCZ''"

definition dogeMaturity :: int64 where "dogeMaturity = 14"
definition ltcMaturity :: int64 where "ltcMaturity = 14"

text \<open>
  An \<open>rpcclient.Client\<close> of a foreign chain, as the verifier uses it: the raw transaction
  of a transaction id and the current block count.
\<close>

record rpcclient_Client =
  GetRawTransaction :: "byte list \<Rightarrow> wire_MsgTx result"
  GetBlockCount :: "int64 result"

record EntangleVerify =
  DogeCoinRPC :: "rpcclient_Client list"
  LtcCoinRPC :: "rpcclient_Client list"
  Cache :: "(EntangleTxInfo \<Rightarrow> bool) option"

text \<open>
  \<open>clients[rand.Intn(len(clients))]\<close>: \<open>rand.Intn\<close> panics on 0, and its result indexes
  the slice.
\<close>

definition pick_client :: "extern \<Rightarrow> rpcclient_Client list \<Rightarrow> rpcclient_Client result" where
  "pick_client x clients =
     (if length clients = 0 then Panic InvalidArgument
      else if rand_Intn x (length clients) < length clients
      then Ok (clients ! rand_Intn x (length clients))
      else Panic IndexOutOfRange)"

text \<open>
  The body of \<open>verifyDogeTx\<close> and of \<open>verifyLtcTx\<close> after the choice of the client: the
  two differ in the address id, the pool address, the maturity and the messages.  The
  guard is \<open>len(tx.MsgTx().TxOut) < int(Vout)\<close>; the reads \<open>TxOut[Vout]\<close> and \<open>TxIn[0]\<close>
  that follow panic outside the slice.
\<close>

definition verifyDogeTx_with ::
    "extern \<Rightarrow> rpcclient_Client \<Rightarrow> byte list \<Rightarrow> uint32 \<Rightarrow> int \<Rightarrow> uint64 \<Rightarrow> byte list result" where
  "verifyDogeTx_with x client ExtTxHash' Vout Amount' height' =
     (case GetRawTransaction client ExtTxHash' of
        Err err \<Rightarrow> Err err
      | Panic p \<Rightarrow> Panic p
      | Ok tx \<Rightarrow>
          if int (length (TxOut tx)) < uint Vout then Err (ErrorsNew ''doge TxOut index err'')
          else if length (TxOut tx) \<le> unat Vout then Panic IndexOutOfRange
          else
            let out = TxOut tx ! unat Vout in
            if Value out \<noteq> big_Int64 Amount' then Err (ErrorsNew ''amount err ,[request:'')
            else if GetScriptClass x (PkScript out) \<noteq> 2 then Err (ErrorsNew ''doge PkScript err'')
            else
              (case ExtractPkScriptPub x (PkScript out) of
                 Err err \<Rightarrow> Err err
               | Panic p \<Rightarrow> Panic p
               | Ok pub \<Rightarrow>
                   (case NewLegacyAddressScriptHash x pub 0x1e of
                      Err err \<Rightarrow> Err (ErrorsNew ''doge Pool err'')
                    | Panic p \<Rightarrow> Panic p
                    | Ok addr \<Rightarrow>
                        if addr \<noteq> dogePoolAddr then Err (ErrorsNew ''doge dogePoolPub err'')
                        else
                          (case TxIn tx of
                             [] \<Rightarrow> Panic IndexOutOfRange
                           | txIn0 # _ \<Rightarrow>
                               (case ComputePk x (SignatureScript txIn0) of
                                  Err err \<Rightarrow> Err (ErrorsNew ''doge PkScript err '')
                                | Panic p \<Rightarrow> Panic p
                                | Ok pk \<Rightarrow>
                                    (case GetBlockCount client of
                                       Err err \<Rightarrow> Err err
                                     | Panic p \<Rightarrow> Panic p
                                     | Ok count \<Rightarrow>
                                         if dogeMaturity <s count - height' then Ok pk
                                         else Err (ErrorsNew ''dogeMaturity err'')))))))"

definition verifyLtcTx_with ::
    "extern \<Rightarrow> rpcclient_Client \<Rightarrow> byte list \<Rightarrow> uint32 \<Rightarrow> int \<Rightarrow> uint64 \<Rightarrow> byte list result" where
  "verifyLtcTx_with x client ExtTxHash' Vout Amount' height' =
     (case GetRawTransaction client ExtTxHash' of
        Err err \<Rightarrow> Err err
      | Panic p \<Rightarrow> Panic p
      | Ok tx \<Rightarrow>
          if int (length (TxOut tx)) < uint Vout then Err (ErrorsNew ''ltc TxOut index err'')
          else if length (TxOut tx) \<le> unat Vout then Panic IndexOutOfRange
          else
            let out = TxOut tx ! unat Vout in
            if Value out \<noteq> big_Int64 Amount' then Err (ErrorsNew ''amount err ,[request:'')
            else if GetScriptClass x (PkScript out) \<noteq> 2 then Err (ErrorsNew ''ltc PkScript err'')
            else
              (case ExtractPkScriptPub x (PkScript out) of
                 Err err \<Rightarrow> Err err
               | Panic p \<Rightarrow> Panic p
               | Ok pub \<Rightarrow>
                   (case NewLegacyAddressScriptHash x pub 0x32 of
                      Err err \<Rightarrow> Err (ErrorsNew ''ltcaddr err'')
                    | Panic p \<Rightarrow> Panic p
                    | Ok addr \<Rightarrow>
                        if addr \<noteq> ltcPoolAddr then Err (ErrorsNew ''ltc ltcPoolAddr err'')
                        else
                          (case TxIn tx of
                             [] \<Rightarrow> Panic IndexOutOfRange
                           | txIn0 # _ \<Rightarrow>
                               (case ComputePk x (SignatureScript txIn0) of
                                  Err err \<Rightarrow> Err (ErrorsNew ''ltc PkScript err '')
                                | Panic p \<Rightarrow> Panic p
                                | Ok pk \<Rightarrow>
                                    (case GetBlockCount client of
                                       Err err \<Rightarrow> Err err
                                     | Panic p \<Rightarrow> Panic p
                                     | Ok count \<Rightarrow>
                                         if ltcMaturity <s count - height' then Ok pk
                                         else Err (ErrorsNew ''ltcMaturity err'')))))))"

definition verifyDogeTx ::
    "extern \<Rightarrow> EntangleVerify \<Rightarrow> byte list \<Rightarrow> uint32 \<Rightarrow> int \<Rightarrow> uint64 \<Rightarrow> byte list result" where
  "verifyDogeTx x ev ExtTxHash' Vout Amount' height' =
     and_then (pick_client x (DogeCoinRPC ev))
       (\<lambda>client. verifyDogeTx_with x client ExtTxHash' Vout Amount' height')"

definition verifyLtcTx ::
    "extern \<Rightarrow> EntangleVerify \<Rightarrow> byte list \<Rightarrow> uint32 \<Rightarrow> int \<Rightarrow> uint64 \<Rightarrow> byte list result" where
  "verifyLtcTx x ev ExtTxHash' Vout Amount' height' =
     and_then (pick_client x (LtcCoinRPC ev))
       (\<lambda>client. verifyLtcTx_with x client ExtTxHash' Vout Amount' height')"

text \<open>\<open>verifyTx\<close>: any other type falls out of the \<open>switch\<close> to \<open>return nil, nil\<close>.\<close>

definition verifyTx ::
    "extern \<Rightarrow> EntangleVerify \<Rightarrow> ExpandedTxType \<Rightarrow> byte list \<Rightarrow> uint32 \<Rightarrow> uint64 \<Rightarrow> int
       \<Rightarrow> byte list result" where
  "verifyTx x ev ExTxType' ExtTxHash' Vout height' amount' =
     (if ExTxType' = ExpandedTxEntangle_Doge then verifyDogeTx x ev ExtTxHash' Vout amount' height'
      else if ExTxType' = ExpandedTxEntangle_Ltc then verifyLtcTx x ev ExtTxHash' Vout amount' height'
      else Ok [])"

text \<open>The two loops of \<open>VerifyEntangleTx\<close> over the entangle infos of the transaction.\<close>

fun VerifyEntangleTx_cache ::
    "(EntangleTxInfo \<Rightarrow> bool) \<Rightarrow> wire_MsgTx \<Rightarrow> int64 \<Rightarrow> (uint32 \<times> EntangleTxInfo) list
       \<Rightarrow> int64 result" where
  "VerifyEntangleTx_cache fetch tx amount' [] = Ok amount'"
| "VerifyEntangleTx_cache fetch tx amount' ((i, v) # rest) =
     (if fetch v then Err (ErrorsNew ''txid has already entangle:'')
      else if length (TxOut tx) \<le> unat i then Panic IndexOutOfRange
      else VerifyEntangleTx_cache fetch tx (amount' + Value (TxOut tx ! unat i)) rest)"

fun VerifyEntangleTx_verify ::
    "extern \<Rightarrow> EntangleVerify \<Rightarrow> TuplePubIndex list \<Rightarrow> (uint32 \<times> EntangleTxInfo) list
       \<Rightarrow> TuplePubIndex list result" where
  "VerifyEntangleTx_verify x ev pairs [] = Ok pairs"
| "VerifyEntangleTx_verify x ev pairs ((i, v) # rest) =
     (case verifyTx x ev (ExTxType v) (ExtTxHash v) (info_Index v) (Height v) (Amount v) of
        Err err \<Rightarrow> Err (ErrorsNew ''txid verify failed:'')
      | Panic p \<Rightarrow> Panic p
      | Ok pub \<Rightarrow>
          VerifyEntangleTx_verify x ev
            (pairs @ [\<lparr>tuple_EType = ExTxType v, tuple_Index = i, Pub = pub\<rparr>]) rest)"

definition VerifyEntangleTx ::
    "extern \<Rightarrow> EntangleVerify \<Rightarrow> wire_MsgTx \<Rightarrow> TuplePubIndex list result" where
  "VerifyEntangleTx x ev tx =
     (case IsEntangleTx x tx of
        None \<Rightarrow> Err (ErrorsNew ''not entangle tx'')
      | Some einfos \<Rightarrow>
          and_then
            (case Cache ev of
               None \<Rightarrow> Ok 0
             | Some fetch \<Rightarrow> VerifyEntangleTx_cache fetch tx 0 einfos)
            (\<lambda>amount'. VerifyEntangleTx_verify x ev [] einfos))"


section \<open>The rest of package blockchain\<close>

datatype ThresholdState =
  ThresholdDefined | ThresholdStarted | ThresholdLockedIn | ThresholdActive | ThresholdFailed

record SequenceLock =
  Seconds :: int64
  BlockHeight :: int32

text \<open>
  The fields and methods of \<open>*BlockChain\<close> and the functions of package blockchain that
  \<open>checkConnectBlock\<close> calls and that are defined in files that are not among the
  sources (chain.go, utxoviewpoint.go, scriptval.go, thresholdstate.go, blockindex.go).
  They are parameters of the model.  \<open>addInputUtxos\<close> and \<open>connectTransactions\<close> update
  the view (and the spent journal) in place; here they return the updated state.
  \<open>LatestCheckpoint\<close> is the height of the latest checkpoint, if there is one;
  \<open>deploymentState\<close> is asked for \<open>chaincfg.DeploymentCSV\<close> only; \<open>CalcPastMedianTime\<close>
  gives the \<open>Unix()\<close> seconds of the median time of the node.
\<close>

record BlockChain =
  chainParams :: chaincfg_Params
  GetEntangleVerify :: EntangleVerify
  addInputUtxos :: "UtxoViewpoint \<Rightarrow> czzutil_Block \<Rightarrow> UtxoViewpoint result"
  connectTransactions ::
    "UtxoViewpoint \<Rightarrow> czzutil_Block \<Rightarrow> SpentTxOut list option
       \<Rightarrow> (UtxoViewpoint \<times> SpentTxOut list option) result"
  blockByHashAndHeight :: "byte list \<Rightarrow> int32 \<Rightarrow> czzutil_Block result"
  LatestCheckpoint :: "int32 option"
  deploymentState :: "blockNode option \<Rightarrow> ThresholdState result"
  CalcPastMedianTime :: "blockNode option \<Rightarrow> int64 result"
  calcSequenceLock :: "blockNode \<Rightarrow> wire_MsgTx \<Rightarrow> UtxoViewpoint \<Rightarrow> bool \<Rightarrow> SequenceLock result"
  checkBlockScripts :: "czzutil_Block \<Rightarrow> UtxoViewpoint \<Rightarrow> ScriptFlags \<Rightarrow> unit result"

definition SequenceLockActive :: "SequenceLock \<Rightarrow> int32 \<Rightarrow> int64 \<Rightarrow> bool" where
  "SequenceLockActive sequenceLock blockHeight' medianTimePast =
     (if medianTimePast \<le>s Seconds sequenceLock \<or> blockHeight' \<le>s BlockHeight sequenceLock
      then False else True)"

section \<open>Transaction inputs\<close>

definition CoinPool1 :: "byte list" where
  "CoinPool1 = [0, 0, 0, 0, 0, 0, 0, 0, 0, 0, 0, 0, 0, 0, 0, 0, 0, 0, 0, 1]"

definition CoinPool2 :: "byte list" where
  "CoinPool2 = [0, 0, 0, 0, 0, 0, 0, 0, 0, 0, 0, 0, 0, 0, 0, 0, 0, 0, 0, 2]"

text \<open>
  \<open>matchPoolFromUtxo\<close>.  The Go code drops the error it builds for another index and the
  error of \<open>ExtractPkScriptAddrs\<close>; it never reads its \<open>utxo\<close> argument.
\<close>

definition matchPoolFromUtxo ::
    "extern \<Rightarrow> UtxoEntry \<Rightarrow> nat \<Rightarrow> chaincfg_Params \<Rightarrow> unit result" where
  "matchPoolFromUtxo x utxo index' chainParams' =
     (let pool = (if index' = 1 then CoinPool1 else if index' = 2 then CoinPool2 else [])
      in case NewAddressPubKeyHash x pool chainParams' of
           Err err \<Rightarrow> Err (ErrorsNew ''[pool not match:]'')
         | Panic p \<Rightarrow> Panic p
         | Ok addr \<Rightarrow>
             (case ExtractPkScriptAddrs x pool chainParams' of
                (class, addrs, reqSigs) \<Rightarrow>
                  if class \<noteq> PubKeyHashTy x \<or> reqSigs \<noteq> 1 \<or> addrs \<noteq> [addr]
                  then Err (ErrorsNew ''pool not match[class:'')
                  else Ok ()))"

text \<open>
  The loop of \<open>checkMergeTxInCoinbase\<close> over the inputs; \<open>txInIndex\<close> counts them.  The
  function returns a pair \<open>(bool, error)\<close>, and both are read by the caller.
\<close>

fun checkMergeTxInCoinbase_loop ::
    "extern \<Rightarrow> UtxoViewpoint \<Rightarrow> chaincfg_Params \<Rightarrow> nat \<Rightarrow> wire_TxIn list
       \<Rightarrow> (bool \<times> error option) result" where
  "checkMergeTxInCoinbase_loop x utxoView chainParams' txInIndex [] = Ok (True, None)"
| "checkMergeTxInCoinbase_loop x utxoView chainParams' txInIndex (txIn # rest) =
     (if txInIndex = 0
      then checkMergeTxInCoinbase_loop x utxoView chainParams' (Suc txInIndex) rest
      else
        (case LookupEntry utxoView (PreviousOutPoint txIn) of
           None \<Rightarrow> Ok (True, Some (RuleError ErrMissingTxOut))
         | Some utxo \<Rightarrow>
             if IsSpent_flag utxo then Ok (True, Some (RuleError ErrSpentTxOut))
             else if blockHeight utxo <s EntangleHeight chainParams' - 1
             then Ok (True, Some (RuleError ErrBadTxOutValue))
             else if txInIndex \<le> 2
             then (case matchPoolFromUtxo x utxo txInIndex chainParams' of
                     Err err \<Rightarrow> Ok (True, None)
                   | Panic p \<Rightarrow> Panic p
                   | Ok _ \<Rightarrow>
                       checkMergeTxInCoinbase_loop x utxoView chainParams' (Suc txInIndex) rest)
             else checkMergeTxInCoinbase_loop x utxoView chainParams' (Suc txInIndex) rest))"

definition checkMergeTxInCoinbase ::
    "extern \<Rightarrow> wire_MsgTx \<Rightarrow> int32 \<Rightarrow> UtxoViewpoint \<Rightarrow> chaincfg_Params
       \<Rightarrow> (bool \<times> error option) result" where
  "checkMergeTxInCoinbase x tx txHeight utxoView chainParams' =
     and_then (isCoinBaseInParam x tx chainParams') (\<lambda>isCoinBase.
       if txHeight \<le>s EntangleHeight chainParams'
       then (if isCoinBase then Ok (True, None) else Ok (False, None))
       else (if isCoinBase
             then checkMergeTxInCoinbase_loop x utxoView chainParams' 0 (TxIn tx)
             else Ok (False, None)))"

text \<open>\<open>totalSatoshiOut += txOut.Value\<close> over the outputs.\<close>

definition sum_outputs :: "wire_MsgTx \<Rightarrow> int64" where
  "sum_outputs tx = foldl (\<lambda>total txOut. total + Value txOut) 0 (TxOut tx)"

fun CheckTransactionInputs_loop ::
    "extern \<Rightarrow> int32 \<Rightarrow> UtxoViewpoint \<Rightarrow> chaincfg_Params \<Rightarrow> int64 \<Rightarrow> wire_TxIn list
       \<Rightarrow> int64 result" where
  "CheckTransactionInputs_loop x txHeight utxoView chainParams' totalSatoshiIn [] =
     Ok totalSatoshiIn"
| "CheckTransactionInputs_loop x txHeight utxoView chainParams' totalSatoshiIn (txIn # rest) =
     (case LookupEntry utxoView (PreviousOutPoint txIn) of
        None \<Rightarrow> Err (RuleError ErrMissingTxOut)
      | Some utxo \<Rightarrow>
          if IsSpent_flag utxo then Err (RuleError ErrSpentTxOut)
          else if IsCoinBase_flag utxo \<and> \<not> IsPool_flag utxo \<and>
                  (txHeight - blockHeight utxo) <s ucast (CoinbaseMaturity chainParams')
          then Err (RuleError ErrImmatureSpend)
          else
            let originTxSatoshi = amount utxo in
            if originTxSatoshi <s 0 then Err (RuleError ErrBadTxOutValue)
            else if word_of_int (MaxSatoshi x) <s originTxSatoshi
            then Err (RuleError ErrBadTxOutValue)
            else
              let lastSatoshiIn = totalSatoshiIn;
                  totalSatoshiIn = totalSatoshiIn + originTxSatoshi
              in if totalSatoshiIn <s lastSatoshiIn \<or>
                    word_of_int (MaxSatoshi x) <s totalSatoshiIn
                 then Err (RuleError ErrBadTxOutValue)
                 else CheckTransactionInputs_loop x txHeight utxoView chainParams'
                        totalSatoshiIn rest)"

definition CheckTransactionInputs ::
    "extern \<Rightarrow> wire_MsgTx \<Rightarrow> int32 \<Rightarrow> UtxoViewpoint \<Rightarrow> chaincfg_Params \<Rightarrow> int64 result" where
  "CheckTransactionInputs x tx txHeight utxoView chainParams' =
     and_then (checkMergeTxInCoinbase x tx txHeight utxoView chainParams') (\<lambda>(ok, err).
       if ok then (case err of None \<Rightarrow> Ok 0 | Some e \<Rightarrow> Err e)
       else
         and_then (CheckTransactionInputs_loop x txHeight utxoView chainParams' 0 (TxIn tx))
           (\<lambda>totalSatoshiIn.
              let totalSatoshiOut = sum_outputs tx in
              if totalSatoshiIn <s totalSatoshiOut then Err (RuleError ErrSpendTooHigh)
              else Ok (totalSatoshiIn - totalSatoshiOut)))"

section \<open>Fee order of the transactions (checkTxSequence)\<close>

fun getFee_loop :: "UtxoViewpoint \<Rightarrow> int64 \<Rightarrow> wire_TxIn list \<Rightarrow> int64 result" where
  "getFee_loop utxoView totalSatoshiIn [] = Ok totalSatoshiIn"
| "getFee_loop utxoView totalSatoshiIn (txIn # rest) =
     (case LookupEntry utxoView (PreviousOutPoint txIn) of
        None \<Rightarrow> Err (RuleError ErrMissingTxOut)
      | Some utxo \<Rightarrow>
          if amount utxo <s 0 then Err (RuleError ErrBadTxOutValue)
          else getFee_loop utxoView (totalSatoshiIn + amount utxo) rest)"

definition getFee ::
    "extern \<Rightarrow> wire_MsgTx \<Rightarrow> int32 \<Rightarrow> UtxoViewpoint \<Rightarrow> chaincfg_Params \<Rightarrow> int64 result" where
  "getFee x tx txHeight utxoView chainParams' =
     and_then (isCoinBaseInParam x tx chainParams') (\<lambda>isCoinBase.
       if isCoinBase then Ok 0
       else
         and_then (getFee_loop utxoView 0 (TxIn tx)) (\<lambda>totalSatoshiIn.
           let totalSatoshiOut = sum_outputs tx in
           if totalSatoshiIn <s totalSatoshiOut then Err (RuleError ErrSpendTooHigh)
           else Ok (totalSatoshiIn - totalSatoshiOut)))"

text \<open>
  \<open>getEtsInfoInBlock\<close>: \<open>fee * 1000 / int64(size)\<close> is an \<open>int64\<close> division, which panics
  on a zero size.
\<close>

fun getEtsInfoInBlock_loop ::
    "extern \<Rightarrow> int32 \<Rightarrow> UtxoViewpoint \<Rightarrow> chaincfg_Params \<Rightarrow> EtsInfo list \<Rightarrow> wire_MsgTx list
       \<Rightarrow> EtsInfo list result" where
  "getEtsInfoInBlock_loop x height' utxoView chainParams' infos [] = Ok infos"
| "getEtsInfoInBlock_loop x height' utxoView chainParams' infos (tx # rest) =
     and_then (getFee x tx height' utxoView chainParams') (\<lambda>fee.
       if SerializeSize x tx = 0 then Panic IntegerDivideByZero
       else
         let etsInfo = \<lparr>FeePerKB = go_div_i64 (fee * 1000) (SerializeSize x tx), Tx = tx\<rparr>
         in getEtsInfoInBlock_loop x height' utxoView chainParams' (infos @ [etsInfo]) rest)"

definition getEtsInfoInBlock ::
    "extern \<Rightarrow> czzutil_Block \<Rightarrow> UtxoViewpoint \<Rightarrow> chaincfg_Params \<Rightarrow> EtsInfo list result" where
  "getEtsInfoInBlock x block utxoView chainParams' =
     getEtsInfoInBlock_loop x (block_Height block) utxoView chainParams' [] (Transactions block)"

definition checkTxSequence ::
    "extern \<Rightarrow> czzutil_Block \<Rightarrow> UtxoViewpoint \<Rightarrow> chaincfg_Params \<Rightarrow> unit result" where
  "checkTxSequence x block utxoView chainParams' =
     (let height' = block_Height block in
      if height' \<le>s EntangleHeight chainParams' then Ok ()
      else and_then (getEtsInfoInBlock x block utxoView chainParams') (VerifyTxsSequence x))"


section \<open>Ordering of entangle transactions in a block\<close>

definition checkEntangleTx :: "BlockChain \<Rightarrow> extern \<Rightarrow> wire_MsgTx \<Rightarrow> unit result" where
  "checkEntangleTx b x tx =
     (case VerifyEntangleTx x (GetEntangleVerify b) tx of
        Err err \<Rightarrow> Err err
      | Panic p \<Rightarrow> Panic p
      | Ok _ \<Rightarrow> Ok ())"

text \<open>The inner loop of \<open>CheckBlockEntangle\<close>: the largest \<open>int64(ii.Height)\<close>, from 0.\<close>

definition max_entangle_height :: "(uint32 \<times> EntangleTxInfo) list \<Rightarrow> int64" where
  "max_entangle_height einfos =
     foldl (\<lambda>max' ii. if max' <s Height ii then Height ii else max') 0 (map snd einfos)"

text \<open>
  The outer loop of \<open>CheckBlockEntangle\<close>.  \<open>curHeight\<close> is the loop's variable; the Go
  code initialises it to 0 and no statement of the loop assigns to it.
\<close>

fun CheckBlockEntangle_loop ::
    "BlockChain \<Rightarrow> extern \<Rightarrow> int64 \<Rightarrow> wire_MsgTx list \<Rightarrow> unit result" where
  "CheckBlockEntangle_loop b x curHeight [] = Ok ()"
| "CheckBlockEntangle_loop b x curHeight (tx # rest) =
     (case IsEntangleTx x tx of
        None \<Rightarrow> CheckBlockEntangle_loop b x curHeight rest
      | Some einfos \<Rightarrow>
          let max' = max_entangle_height einfos in
          if max' <s curHeight then Err (ErrorsNew ''unordered entangle tx in the block'')
          else
            (case checkEntangleTx b x tx of
               Err err \<Rightarrow> Err err
             | Panic p \<Rightarrow> Panic p
             | Ok _ \<Rightarrow> CheckBlockEntangle_loop b x curHeight rest))"

definition CheckBlockEntangle :: "BlockChain \<Rightarrow> extern \<Rightarrow> czzutil_Block \<Rightarrow> unit result" where
  "CheckBlockEntangle b x block = CheckBlockEntangle_loop b x 0 (Transactions block)"


section \<open>Subsidy and pool accounting\<close>

record KeepedInfoSummay =
  TotalIn :: int64
  TotalOut :: int64
  KeepedAmountInBlock :: KeepedAmount
  EntangleAmount :: int64
  lastpool1Amount :: int64
  lastpool2Amount :: int64
  pool1Amount :: int64
  pool2Amount :: int64

definition getKeepedAmountFormPreBlock :: "extern \<Rightarrow> czzutil_Block \<Rightarrow> KeepedAmount result" where
  "getKeepedAmountFormPreBlock x block =
     (let keepInfo = \<lparr>Count = 0, Items = []\<rparr>
      in case Block_Tx block 0 of
           Ok coinbaseTx \<Rightarrow>
             if 4 \<le> length (TxOut coinbaseTx)
             then (case KeepedAmount_Parse x (PkScript (TxOut coinbaseTx ! 3)) of
                     Err err \<Rightarrow> Err err
                   | Panic p \<Rightarrow> Panic p
                   | Ok parsed \<Rightarrow> Ok parsed)
             else Ok keepInfo
         | Err err \<Rightarrow> Ok keepInfo
         | Panic p \<Rightarrow> Panic p)"

text \<open>
  \<open>getPoolAmountFromPreBlock\<close> reads \<open>TxOut[1]\<close> and \<open>TxOut[2]\<close> of the previous coinbase
  without a length check.
\<close>

definition getPoolAmountFromPreBlock ::
    "czzutil_Block \<Rightarrow> KeepedInfoSummay \<Rightarrow> KeepedInfoSummay result" where
  "getPoolAmountFromPreBlock block summay =
     (case Block_Tx block 0 of
        Ok coinbaseTx \<Rightarrow>
          if length (TxOut coinbaseTx) \<le> 2 then Panic IndexOutOfRange
          else Ok (summay\<lparr>lastpool1Amount := Value (TxOut coinbaseTx ! 1),
                           lastpool2Amount := Value (TxOut coinbaseTx ! 2)\<rparr>)
      | Err err \<Rightarrow> Err err
      | Panic p \<Rightarrow> Panic p)"

text \<open>
  \<open>handleSummayEntangle\<close> updates the summary and the kept amounts in place; here it
  returns both.  The Go loop ranges over a map; the association list fixes one order.
\<close>

fun handleSummayEntangle ::
    "extern \<Rightarrow> KeepedInfoSummay \<Rightarrow> KeepedAmount \<Rightarrow> (uint32 \<times> EntangleTxInfo) list
       \<Rightarrow> KeepedInfoSummay \<times> KeepedAmount" where
  "handleSummayEntangle x summay keepedInfo [] = (summay, keepedInfo)"
| "handleSummayEntangle x summay keepedInfo ((k, v) # rest) =
     (let item = \<lparr>EType = ExTxType v, item_Value = Amount v\<rparr>;
          summay = summay\<lparr>KeepedAmountInBlock :=
                      KeepedAmount_Add x (KeepedAmountInBlock summay)
                        \<lparr>item_ExTxType = EType item, item_Amount = item_Value item\<rparr>\<rparr>
      in case PreCalcEntangleAmount x item keepedInfo of
           (item, keepedInfo) \<Rightarrow>
             handleSummayEntangle x
               (summay\<lparr>EntangleAmount := EntangleAmount summay + big_Int64 (item_Value item)\<rparr>)
               keepedInfo rest)"

text \<open>
  The loops of \<open>summayOfTxsAndCheck\<close>: over the outputs of the coinbase (with the output
  index), over the inputs of another transaction, and over the transactions (with the
  transaction index).  The state of the outer loop is \<open>totalIn\<close>, \<open>totalOut\<close>, \<open>amount1\<close>,
  the summary and the kept amounts.
\<close>

fun summay_coinbase_outputs ::
    "nat \<Rightarrow> int64 \<times> int64 \<times> KeepedInfoSummay \<Rightarrow> wire_TxOut list
       \<Rightarrow> int64 \<times> int64 \<times> KeepedInfoSummay" where
  "summay_coinbase_outputs i st [] = st"
| "summay_coinbase_outputs i (totalOut, amount1, summay) (txout # rest) =
     (let amount1 = (if 3 < i then amount1 + Value txout else amount1);
          summay = (if i = 1 then summay\<lparr>pool1Amount := Value txout\<rparr> else summay);
          summay = (if i = 2 then summay\<lparr>pool2Amount := Value txout\<rparr> else summay);
          totalOut = totalOut + Value txout
      in summay_coinbase_outputs (Suc i) (totalOut, amount1, summay) rest)"

fun summay_inputs :: "UtxoViewpoint \<Rightarrow> int64 \<Rightarrow> wire_TxIn list \<Rightarrow> int64 result" where
  "summay_inputs utxoView totalIn [] = Ok totalIn"
| "summay_inputs utxoView totalIn (txIn # rest) =
     (case LookupEntry utxoView (PreviousOutPoint txIn) of
        None \<Rightarrow> Err (RuleError ErrMissingTxOut)
      | Some utxo \<Rightarrow> summay_inputs utxoView (totalIn + amount utxo) rest)"

fun summay_txs ::
    "extern \<Rightarrow> UtxoViewpoint \<Rightarrow> nat
       \<Rightarrow> int64 \<times> int64 \<times> int64 \<times> KeepedInfoSummay \<times> KeepedAmount \<Rightarrow> wire_MsgTx list
       \<Rightarrow> (int64 \<times> int64 \<times> int64 \<times> KeepedInfoSummay \<times> KeepedAmount) result" where
  "summay_txs x utxoView txIndex st [] = Ok st"
| "summay_txs x utxoView txIndex (totalIn, totalOut, amount1, summay, keepInfo) (tx # rest) =
     (if txIndex = 0
      then (case summay_coinbase_outputs 0 (totalOut, amount1, summay) (TxOut tx) of
              (totalOut, amount1, summay) \<Rightarrow>
                summay_txs x utxoView (Suc txIndex)
                  (totalIn, totalOut, amount1, summay, keepInfo) rest)
      else
        (case (case IsEntangleTx x tx of
                 None \<Rightarrow> (summay, keepInfo)
               | Some einfos \<Rightarrow> handleSummayEntangle x summay keepInfo einfos) of
           (summay, keepInfo) \<Rightarrow>
             let totalOut = foldl (\<lambda>total txout. total + Value txout) totalOut (TxOut tx)
             in and_then (summay_inputs utxoView totalIn (TxIn tx)) (\<lambda>totalIn.
                  summay_txs x utxoView (Suc txIndex)
                    (totalIn, totalOut, amount1, summay, keepInfo) rest)))"

definition summayOfTxsAndCheck ::
    "extern \<Rightarrow> czzutil_Block \<Rightarrow> czzutil_Block \<Rightarrow> UtxoViewpoint \<Rightarrow> int64 \<Rightarrow> int64 \<Rightarrow> int64
       \<Rightarrow> KeepedInfoSummay result" where
  "summayOfTxsAndCheck x preblock block utxoView subsidy pool1Amount' pool2Amount' =
     (let summay = \<lparr>TotalIn = 0, TotalOut = 0,
                     KeepedAmountInBlock = \<lparr>Count = 0, Items = []\<rparr>, EntangleAmount = 0,
                     lastpool1Amount = 0, lastpool2Amount = 0, pool1Amount = 0, pool2Amount = 0\<rparr>
      in and_then (getKeepedAmountFormPreBlock x preblock) (\<lambda>keepInfo.
         and_then (getPoolAmountFromPreBlock preblock summay) (\<lambda>summay.
           let totalIn = lastpool1Amount summay + lastpool2Amount summay + pool1Amount' +
                         pool2Amount' + subsidy
           in and_then (summay_txs x utxoView 0 (totalIn, 0, 0, summay, keepInfo)
                          (Transactions block))
                (\<lambda>(totalIn, totalOut, amount1, summay, keepInfo).
                   if amount1 \<noteq> EntangleAmount summay
                   then Err (ErrorsNew ''not match the entangle amount.['')
                   else Ok (summay\<lparr>TotalIn := totalIn, TotalOut := totalOut\<rparr>)))))"

text \<open>
  \<open>checkBlockSubsidy\<close>.  The first statement returns nil for every height up to and
  including \<open>EntangleHeight\<close>; the test \<open>txHeight == chainParams.EntangleHeight\<close> that
  multiplies the two pool incomes comes after it.
\<close>

definition checkBlockSubsidy ::
    "extern \<Rightarrow> czzutil_Block \<Rightarrow> czzutil_Block \<Rightarrow> int32 \<Rightarrow> UtxoViewpoint \<Rightarrow> int64
       \<Rightarrow> chaincfg_Params \<Rightarrow> unit result" where
  "checkBlockSubsidy x block preBlock txHeight utxoView amountSubsidy chainParams' =
     (if txHeight \<le>s EntangleHeight chainParams' then Ok ()
      else
        let originIncome1 = go_div_i64 (amountSubsidy * 19) 100;
            originIncome2 = go_div_i64 amountSubsidy 100;
            originIncome3 = amountSubsidy - originIncome1 - originIncome2;
            originIncome1 = (if txHeight = EntangleHeight chainParams'
                             then originIncome1 * scast (EntangleHeight chainParams' - 1)
                             else originIncome1);
            originIncome2 = (if txHeight = EntangleHeight chainParams'
                             then originIncome2 * scast (EntangleHeight chainParams' - 1)
                             else originIncome2);
            reward1 = originIncome1; reward2 = originIncome2; reward3 = originIncome3
        in and_then (summayOfTxsAndCheck x preBlock block utxoView reward3 reward1 reward2)
             (\<lambda>summay.
                let expPool1Amount = lastpool1Amount summay + originIncome1 - EntangleAmount summay
                in if pool1Amount summay \<noteq> expPool1Amount
                   then Err (ErrorsNew ''BlockSubsidy:the pool1 address's reward was wrong['')
                   else if originIncome2 + lastpool2Amount summay \<noteq> pool2Amount summay
                   then Err (ErrorsNew ''BlockSubsidy:the pool2 address's reward was wrong['')
                   else if TotalIn summay <s TotalOut summay
                   then Err (ErrorsNew ''BlockSubsidy:wrong,the totalOut > totalIn,[totalOut:'')
                   else Ok ()))"


section \<open>Connecting a block (checkConnectBlock)\<close>

text \<open>The script flags that \<open>checkConnectBlock\<close> sets before the loops.\<close>

definition connect_scriptFlags :: ScriptFlags where
  "connect_scriptFlags =
     {ScriptBip16, ScriptVerifyDERSignatures, ScriptVerifyCheckLockTimeVerify,
      ScriptVerifyStrictEncoding, ScriptVerifyBip143SigHash, ScriptVerifyLowS,
      ScriptVerifyNullFail, ScriptVerifySigPushOnly, ScriptVerifyCleanStack,
      ScriptVerifyCheckDataSig, ScriptVerifySchnorr, ScriptVerifyAllowSegwitRecovery}"

text \<open>The first loop: the signature operations of the block, transaction \<open>i\<close> first.\<close>

fun connect_sigops_loop ::
    "extern \<Rightarrow> UtxoViewpoint \<Rightarrow> ScriptFlags \<Rightarrow> go_int \<Rightarrow> nat \<Rightarrow> go_int \<Rightarrow> wire_MsgTx list
       \<Rightarrow> go_int result" where
  "connect_sigops_loop x view scriptFlags maxSigOps i totalSigOpCost [] = Ok totalSigOpCost"
| "connect_sigops_loop x view scriptFlags maxSigOps i totalSigOpCost (tx # rest) =
     and_then (GetSigOps x tx (i = 0) view scriptFlags) (\<lambda>sigOpCost.
       let lastSigOpCost = totalSigOpCost;
           totalSigOpCost = totalSigOpCost + sigOpCost
       in if totalSigOpCost <s lastSigOpCost \<or> maxSigOps <s totalSigOpCost
          then Err (RuleError ErrTooManySigOps)
          else connect_sigops_loop x view scriptFlags maxSigOps (Suc i) totalSigOpCost rest)"

text \<open>The second loop: the inputs of every transaction, and the total of the fees.\<close>

fun connect_fees_loop ::
    "extern \<Rightarrow> int32 \<Rightarrow> UtxoViewpoint \<Rightarrow> chaincfg_Params \<Rightarrow> int64 \<Rightarrow> wire_MsgTx list
       \<Rightarrow> int64 result" where
  "connect_fees_loop x height' view chainParams' totalFees [] = Ok totalFees"
| "connect_fees_loop x height' view chainParams' totalFees (tx # rest) =
     and_then (CheckTransactionInputs x tx height' view chainParams') (\<lambda>txFee.
       let lastTotalFees = totalFees;
           totalFees = totalFees + txFee
       in if totalFees <s lastTotalFees then Err (RuleError ErrBadFees)
          else connect_fees_loop x height' view chainParams' totalFees rest)"

text \<open>
  \<open>for _, txOut := range transactions[0].MsgTx().TxOut { totalSatoshiOut += txOut.Value;
  break }\<close>: the value of the first output of the coinbase, 0 when it has none.
\<close>

definition coinbase_totalSatoshiOut :: "wire_MsgTx \<Rightarrow> int64" where
  "coinbase_totalSatoshiOut coinbase =
     (case TxOut coinbase of [] \<Rightarrow> 0 | txOut # _ \<Rightarrow> 0 + Value txOut)"

text \<open>The loop over the transactions that enforces the sequence locks.\<close>

fun connect_seqlock_loop ::
    "BlockChain \<Rightarrow> blockNode \<Rightarrow> UtxoViewpoint \<Rightarrow> int64 \<Rightarrow> wire_MsgTx list \<Rightarrow> unit result" where
  "connect_seqlock_loop b node view medianTime [] = Ok ()"
| "connect_seqlock_loop b node view medianTime (tx # rest) =
     and_then (calcSequenceLock b node tx view False) (\<lambda>sequenceLock.
       if \<not> SequenceLockActive sequenceLock (height node) medianTime
       then Err (RuleError ErrUnfinalizedTx)
       else connect_seqlock_loop b node view medianTime rest)"

text \<open>
  What \<open>checkConnectBlock\<close> does after the check of the coinbase value: the subsidy check
  against the previous block, the sequence locks and the scripts.
\<close>

definition connect_after_coinbase ::
    "BlockChain \<Rightarrow> extern \<Rightarrow> blockNode \<Rightarrow> czzutil_Block \<Rightarrow> UtxoViewpoint \<Rightarrow> ScriptFlags
       \<Rightarrow> int64 \<Rightarrow> unit result" where
  "connect_after_coinbase b x node block view scriptFlags amountSubsidy =
     (let preHash = PrevBlock block;
          preHeight = height node - 1
      in and_then
           (if 0 <s preHeight
            then (case blockByHashAndHeight b preHash preHeight of
                    Err err \<Rightarrow> Err (RuleError ErrPrevBlockNotBest)
                  | Panic p \<Rightarrow> Panic p
                  | Ok preblock \<Rightarrow>
                      checkBlockSubsidy x block preblock (height node) view amountSubsidy
                        (chainParams b))
            else Ok ())
           (\<lambda>_.
              let runScripts = (case LatestCheckpoint b of
                                  None \<Rightarrow> True
                                | Some checkpointHeight \<Rightarrow>
                                    if height node \<le>s checkpointHeight then False else True)
              in and_then (deploymentState b (parent node)) (\<lambda>csvState.
                 and_then
                   (if csvState = ThresholdActive
                    then and_then (CalcPastMedianTime b (parent node)) (\<lambda>medianTime.
                         and_then (connect_seqlock_loop b node view medianTime
                                     (Transactions block))
                           (\<lambda>_. Ok (scriptFlags \<union> {ScriptVerifyCheckSequenceVerify})))
                    else Ok scriptFlags)
                   (\<lambda>scriptFlags.
                      if runScripts then checkBlockScripts b block view scriptFlags
                      else Ok ()))))"

text \<open>
  \<open>checkConnectBlock\<close>.  The result is the error the caller observes.  After a failure of
  \<open>connectTransactions\<close> the function returns nil.
\<close>

definition checkConnectBlock ::
    "BlockChain \<Rightarrow> extern \<Rightarrow> blockNode \<Rightarrow> czzutil_Block \<Rightarrow> UtxoViewpoint
       \<Rightarrow> SpentTxOut list option \<Rightarrow> unit result" where
  "checkConnectBlock b x node block view stxos =
     (if hash node = GenesisHash (chainParams b) then Err (RuleError ErrMissingTxOut)
      else
        and_then (addInputUtxos b view block) (\<lambda>view.
          let scriptFlags = connect_scriptFlags;
              transactions = Transactions block;
              nBlockBytes = BlockSerializeSize x block;
              maxSigOps = MaxBlockSigOps (ucast nBlockBytes)
          in and_then (connect_sigops_loop x view scriptFlags maxSigOps 0 0 transactions) (\<lambda>_.
             and_then (connect_fees_loop x (height node) view (chainParams b) 0 transactions)
               (\<lambda>totalFees.
             and_then (checkTxSequence x block view (chainParams b)) (\<lambda>_.
               case connectTransactions b view block stxos of
                 Err err \<Rightarrow> Ok ()
               | Panic p \<Rightarrow> Panic p
               | Ok (view, stxos) \<Rightarrow>
                   (case transactions of
                      [] \<Rightarrow> Panic IndexOutOfRange
                    | coinbase # _ \<Rightarrow>
                        let totalSatoshiOut = coinbase_totalSatoshiOut coinbase;
                            amountSubsidy = CalcBlockSubsidy x (height node) (chainParams b);
                            expectedSatoshiOut = amountSubsidy + totalFees
                        in if expectedSatoshiOut <s totalSatoshiOut
                           then Err (RuleError ErrBadCoinbaseValue)
                           else connect_after_coinbase b x node block view scriptFlags
                                  amountSubsidy))))))"


section \<open>Concrete collaborators for the worked examples\<close>

text \<open>
  One instance of the parameters, used where a theorem is applied to a concrete input:
  every script counts one signature operation, every script is pay-to-script-hash of
  class 2, the foreign address of a script is the pool address of its chain, and a
  transaction is an entangle transaction when its first output script is not empty; the
  first byte of that script is then the height of its only entangle info.
\<close>

definition example_params :: chaincfg_Params where
  "example_params =
     \<lparr>SubsidyReductionInterval = 1000, EntangleHeight = 10, CoinbaseMaturity = 100,
      GenesisHash = [1], PowLimit = 2 ^ 255 - 1, PowLimitBits = 0x207fffff,
      NoDifficultyAdjustment = False\<rparr>"

definition example_IsEntangleTx :: "wire_MsgTx \<Rightarrow> (uint32 \<times> EntangleTxInfo) list option" where
  "example_IsEntangleTx tx =
     (case TxOut tx of
        [] \<Rightarrow> None
      | txOut # _ \<Rightarrow>
          (case PkScript txOut of
             [] \<Rightarrow> None
           | h # _ \<Rightarrow>
               Some [(0, \<lparr>ExTxType = ExpandedTxEntangle_Doge, info_Index = 0, Height = ucast h,
                          Amount = 0, ExtTxHash = []\<rparr>)]))"

definition example_extern :: extern where
  "example_extern =
     \<lparr>SatoshiPerBitcoin = 100000000, MaxSatoshi = 2100000000000000,
      NewAddressPubKeyHash = (\<lambda>pkHash params. Ok []),
      NewLegacyAddressScriptHash =
        (\<lambda>pub addrID. if addrID = 0x1e then Ok dogePoolAddr else Ok ltcPoolAddr),
      MainNetParams = example_params,
      SerializeSize = (\<lambda>tx. 200), BlockSerializeSize = (\<lambda>block. 1000),
      OP_0 = 0, OP_1 = 81, OP_16 = 96, PubKeyHashTy = 2,
      GetSigOpCount = (\<lambda>script flags. 1),
      GetPreciseSigOpCount = (\<lambda>sigScript script flags. 1),
      IsPayToScriptHash = (\<lambda>script. True),
      GetScriptClass = (\<lambda>script. 2),
      ExtractPkScriptPub = (\<lambda>script. Ok script),
      ExtractPkScriptAddrs = (\<lambda>script params. (2, [[]], 1)),
      ComputePk = (\<lambda>sigScript. Ok sigScript),
      IsEntangleTx = example_IsEntangleTx,
      VerifyTxsSequence = (\<lambda>infos. Ok ()),
      KeepedAmount_Parse = (\<lambda>script. Ok \<lparr>Count = 0, Items = []\<rparr>),
      KeepedAmount_Add = (\<lambda>keep item. keep\<lparr>Items := Items keep @ [item]\<rparr>),
      PreCalcEntangleAmount = (\<lambda>item keep. (item, keep)),
      rand_Intn = (\<lambda>n. 0)\<rparr>"

text \<open>
  A genesis node whose work is that of one block at the limit \<open>0x207fffff\<close>, and its
  child.
\<close>

definition example_genesis :: blockNode where
  "example_genesis = BlockNode None [1] 0 0x207fffff 0 2"

definition example_node :: blockNode where
  "example_node = BlockNode (Some example_genesis) [2] 1 0x207fffff 30 4"

text \<open>
  A foreign transaction with one input and one output, a client that returns it for every
  transaction id and reports 1000 blocks, and a chain whose collaborators all succeed.
\<close>

definition example_foreign_tx :: wire_MsgTx where
  "example_foreign_tx =
     \<lparr>Version = 1,
      TxIn = [\<lparr>PreviousOutPoint = \<lparr>Hash = [7], Index = 0\<rparr>, SignatureScript = [3],
               Sequence = 0\<rparr>],
      TxOut = [\<lparr>Value = 0, PkScript = [7]\<rparr>],
      LockTime = 0\<rparr>"

definition example_client :: rpcclient_Client where
  "example_client =
     \<lparr>GetRawTransaction = (\<lambda>txid. Ok example_foreign_tx), GetBlockCount = Ok 1000\<rparr>"

definition example_verify :: EntangleVerify where
  "example_verify =
     \<lparr>DogeCoinRPC = [example_client], LtcCoinRPC = [example_client], Cache = None\<rparr>"

definition example_chain :: BlockChain where
  "example_chain =
     \<lparr>chainParams = example_params,
      GetEntangleVerify = example_verify,
      addInputUtxos = (\<lambda>view block. Ok view),
      connectTransactions = (\<lambda>view block stxos. Ok (view, stxos)),
      blockByHashAndHeight =
        (\<lambda>h n. Ok \<lparr>PrevBlock = [], Transactions = [], block_Height = n\<rparr>),
      LatestCheckpoint = None,
      deploymentState = (\<lambda>node. Ok ThresholdDefined),
      CalcPastMedianTime = (\<lambda>node. Ok 0),
      calcSequenceLock = (\<lambda>node tx view mempool. Ok \<lparr>Seconds = - 1, BlockHeight = - 1\<rparr>),
      checkBlockScripts = (\<lambda>block view flags. Ok ())\<rparr>"

text \<open>
  A transaction with one ordinary input and one output of the given value and script, a
  coinbase for a block of height 5 (its script starts with \<open>OP_5\<close>) and a block of height
  5 that holds only the coinbase.
\<close>

definition example_tx :: "int64 \<Rightarrow> byte list \<Rightarrow> wire_MsgTx" where
  "example_tx v script =
     \<lparr>Version = 1,
      TxIn = [\<lparr>PreviousOutPoint = \<lparr>Hash = [9], Index = 0\<rparr>, SignatureScript = [1],
               Sequence = 0\<rparr>],
      TxOut = [\<lparr>Value = v, PkScript = script\<rparr>],
      LockTime = 0\<rparr>"

definition example_coinbase :: "int64 \<Rightarrow> wire_MsgTx" where
  "example_coinbase v =
     \<lparr>Version = 1,
      TxIn = [\<lparr>PreviousOutPoint = \<lparr>Hash = zeroHash, Index = MaxUint32\<rparr>,
               SignatureScript = [85, 0], Sequence = 0\<rparr>],
      TxOut = [\<lparr>Value = v, PkScript = []\<rparr>],
      LockTime = 0\<rparr>"

definition example_block :: "int64 \<Rightarrow> czzutil_Block" where
  "example_block v =
     \<lparr>PrevBlock = [4], Transactions = [example_coinbase v], block_Height = 5\<rparr>"

definition example_block_node :: blockNode where
  "example_block_node = BlockNode None [5] 5 0x207fffff 150 12"


section \<open>Facts about words and integer division\<close>

lemma sint_word_of_int_32:
  "- (2 ^ 31) \<le> k \<Longrightarrow> k < 2 ^ 31 \<Longrightarrow> sint (word_of_int k :: 32 word) = k"
  by (simp add: sint_sbintrunc' signed_take_bit_int_eq_self)

lemma sint_word_of_int_64:
  "- (2 ^ 63) \<le> k \<Longrightarrow> k < 2 ^ 63 \<Longrightarrow> sint (word_of_int k :: 64 word) = k"
  by (simp add: sint_sbintrunc' signed_take_bit_int_eq_self)

lemma uint_word_of_int_64:
  "0 \<le> k \<Longrightarrow> k < 2 ^ 64 \<Longrightarrow> uint (word_of_int k :: 64 word) = k"
  by (simp add: uint_word_of_int take_bit_int_eq_self)

lemma sint_eq_uint_64:
  assumes "uint (w :: 64 word) < 2 ^ 63"
  shows "sint w = uint w"
proof -
  have "sint w = signed_take_bit 63 (uint w)"
    by (simp add: sint_uint)
  also have "\<dots> = uint w"
    using assms uint_ge_0 [of w]
    by (intro signed_take_bit_int_eq_self) (auto intro: order_trans [of _ 0])
  finally show ?thesis .
qed


section \<open>Facts about results\<close>

lemma and_then_eq_Ok_iff:
  "and_then r f = Ok v \<longleftrightarrow> (\<exists>u. r = Ok u \<and> f u = Ok v)"
  by (cases r) auto

lemma and_then_eq_Err_iff:
  "and_then r f = Err e \<longleftrightarrow> r = Err e \<or> (\<exists>u. r = Ok u \<and> f u = Err e)"
  by (cases r) auto

lemma and_then_eq_Panic_iff:
  "and_then r f = Panic p \<longleftrightarrow> r = Panic p \<or> (\<exists>u. r = Ok u \<and> f u = Panic p)"
  by (cases r) auto


section \<open>Block subsidy: integer division by the halving count\<close>

lemma halvings_value:
  assumes I: "0 < sint (I :: int32)" and q: "1 \<le> sint (h :: int32) div sint I"
  shows "uint (scast (go_div_i32 h I) :: go_uint) = sint h div sint I"
proof -
  have hpos: "0 < sint h"
  proof (rule ccontr)
    assume "\<not> 0 < sint h"
    then have "sint h div sint I \<le> 0"
      using I by (simp add: div_nonpos_pos_le0)
    then show False using q by simp
  qed
  have hlt: "sint h < 2 ^ 31" using sint_lt [of h] by simp
  have qle: "sint h div sint I \<le> sint h"
    using int_div_le_self hpos by blast
  have sd: "sint h sdiv sint I = sint h div sint I"
    using hpos I by (simp add: signed_divide_int_def sgn_if)
  have s1: "sint (go_div_i32 h I) = sint h div sint I"
    unfolding go_div_i32_def sd
    using q qle hlt by (intro sint_word_of_int_32) auto
  have "(scast (go_div_i32 h I) :: go_uint) = word_of_int (sint h div sint I)"
    by (metis s1 of_int_sint)
  then show ?thesis
    using q qle hlt by (simp add: uint_word_of_int_64)
qed

text \<open>
  Claim C3.  For a positive reduction interval and a halving count
  \<open>halvings = height / interval \<ge> 1\<close>, \<open>CalcBlockSubsidy\<close> returns \<open>baseSubsidy\<close>
  (1000 times \<open>SatoshiPerBitcoin\<close>) divided by \<open>halvings\<close> with integer division, not
  \<open>baseSubsidy\<close> shifted right by \<open>halvings\<close>, and never less than 1: a quotient of 0 is
  replaced by 1.  The constant \<open>baseSubsidy\<close> is a non-negative \<open>int64\<close>, as the Go
  compiler requires of it.
\<close>

theorem CalcBlockSubsidy_divides_by_halvings:
  assumes base: "0 \<le> baseSubsidy x" "baseSubsidy x < 2 ^ 63"
    and I: "0 < sint (SubsidyReductionInterval p)"
    and q: "1 \<le> sint h div sint (SubsidyReductionInterval p)"
  shows "sint (CalcBlockSubsidy x h p) =
           (if baseSubsidy x div (sint h div sint (SubsidyReductionInterval p)) = 0 then 1
            else baseSubsidy x div (sint h div sint (SubsidyReductionInterval p)))"
proof -
  let ?I = "SubsidyReductionInterval p"
  let ?q = "sint h div sint ?I"
  let ?hv = "scast (go_div_i32 h ?I) :: go_uint"
  let ?b = "word_of_int (baseSubsidy x) :: go_uint"
  have hv: "uint ?hv = ?q" using halvings_value [OF I q] .
  have I0: "?I \<noteq> 0" using I by auto
  have hv0: "?hv \<noteq> 0" using hv q by auto
  have b: "uint ?b = baseSubsidy x"
    using base by (intro uint_word_of_int_64) auto
  have d: "uint (?b div ?hv) = baseSubsidy x div ?q"
    by (simp add: uint_div b hv)
  have "baseSubsidy x div ?q \<le> baseSubsidy x"
    using base(1) by (cases "baseSubsidy x = 0") (auto intro: int_div_le_self)
  then have dlt: "baseSubsidy x div ?q < 2 ^ 63"
    using base(2) by simp
  have s: "sint (?b div ?hv) = baseSubsidy x div ?q"
    using sint_eq_uint_64 [of "?b div ?hv"] d dlt by simp
  have z: "(?b div ?hv = 0) = (baseSubsidy x div ?q = 0)"
    using d by (simp add: word_uint_eq_iff)
  show ?thesis
    unfolding CalcBlockSubsidy_def Let_def
    using I0 hv0 s z by simp
qed

theorem CalcBlockSubsidy_divides_by_halvings_witness:
  "sint (CalcBlockSubsidy example_extern 3000 example_params) = 33333333333"
  using CalcBlockSubsidy_divides_by_halvings [of example_extern example_params 3000]
  by (simp add: baseSubsidy_def example_extern_def example_params_def)


section \<open>The compact encoding: decoding what was encoded\<close>

lemma or_shift_add:
  fixes e m :: int
  assumes "0 \<le> m" "m < 2 ^ k"
  shows "(e * 2 ^ k) OR m = e * 2 ^ k + m"
proof -
  have m: "take_bit k m = m" using assms by (simp add: take_bit_int_eq_self)
  have "push_bit k e AND take_bit k m = 0"
    by (rule bit_eqI) (auto simp: bit_simps)
  then have "push_bit k e + take_bit k m = push_bit k e OR take_bit k m"
    by (rule disjunctive_add_eq_or)
  then show ?thesis by (simp add: m push_bit_eq_mult)
qed

lemma and_mask23:
  fixes x :: int
  shows "x AND 8388607 = x mod 2 ^ 23"
proof -
  have e: "(8388607 :: int) = mask 23" by (simp add: mask_eq_exp_minus_1)
  have "x AND mask 23 = take_bit 23 x" by (simp only: take_bit_eq_mask)
  then show ?thesis unfolding e by (simp only: take_bit_eq_mod)
qed

lemma and_bit23:
  fixes x :: int
  shows "(x AND 8388608 = 0) = (even (x div 2 ^ 23))"
proof -
  have "(8388608 :: int) = 2 ^ 23" by simp
  then have "(x AND 8388608 = 0) = (\<not> bit x 23)"
    by (simp only: and_exp_eq_0_iff_not_bit)
  then show ?thesis by (simp add: bit_iff_odd)
qed

lemma uint32_of_small:
  "0 \<le> k \<Longrightarrow> k < 2 ^ 32 \<Longrightarrow> uint (word_of_int k :: 32 word) = k"
  by (simp add: uint_word_of_int take_bit_int_eq_self)

lemma word32_eq_0_iff: "((w :: 32 word) = 0) = (uint w = 0)"
  by (simp add: word_uint_eq_iff)

lemma take_bit_uint32: "take_bit 32 (uint (w :: 32 word)) = uint w"
  using uint_lt2p [of w] by (simp add: take_bit_int_eq_self)

lemma uint_drop_bit32: "uint (drop_bit n (w :: 32 word)) = uint w div 2 ^ n"
proof -
  have "uint (drop_bit n w) = drop_bit n (take_bit LENGTH(32) (uint w))"
    by (rule unsigned_drop_bit_eq)
  also have "\<dots> = drop_bit n (uint w)"
    by (simp only: len_bit0 len_num1 take_bit_uint32) (simp add: take_bit_uint32)
  finally show ?thesis by (simp only: drop_bit_eq_div)
qed

lemma uint_push_bit32: "uint (push_bit n (w :: 32 word)) = (uint w * 2 ^ n) mod 2 ^ 32"
proof -
  have "uint (push_bit n w) = take_bit LENGTH(32) (push_bit n (uint w))"
    by (rule unsigned_push_bit_eq)
  then show ?thesis by (simp only: push_bit_eq_mult take_bit_eq_mod) simp
qed

lemma uint_word_of_nat32: "uint (word_of_nat k :: 32 word) = int k mod 2 ^ 32"
proof -
  have "(word_of_nat k :: 32 word) = word_of_int (int k)" by simp
  then show ?thesis by (simp only: uint_word_of_int) simp
qed


lemma div_mod_shift:
  fixes b m q :: int
  assumes "0 \<le> m" "m < b"
  shows "(m + b * q) mod b = m" and "(m + b * q) div b = q"
  using assms by simp_all

lemma arith_pack:
  fixes e m :: int
  assumes "0 \<le> m" "m < 8388608"
  shows "(e * 16777216 + m) mod 8388608 = m"
    and "(e * 16777216 + m) div 8388608 = 2 * e"
    and "(e * 16777216 + m) div 16777216 = e"
proof -
  have a: "e * 16777216 + m = m + 8388608 * (2 * e)" by simp
  have b: "e * 16777216 + m = m + 16777216 * e" by simp
  have m2: "m < 16777216" using assms by simp
  show "(e * 16777216 + m) mod 8388608 = m"
    unfolding a by (rule div_mod_shift(1) [OF assms])
  show "(e * 16777216 + m) div 8388608 = 2 * e"
    unfolding a by (rule div_mod_shift(2) [OF assms])
  show "(e * 16777216 + m) div 16777216 = e"
    unfolding b by (rule div_mod_shift(2) [OF assms(1) m2])
qed

lemma decode_pack:
  fixes w :: uint32 and e :: nat
  assumes e: "e < 256" and w: "uint w < 2 ^ 23"
  shows "CompactToBig (word_of_nat (e * 2 ^ 24) OR w) =
           (if e \<le> 3 then uint w div 2 ^ (8 * (3 - e)) else uint w * 2 ^ (8 * (e - 3)))"
proof -
  let ?c = "word_of_nat (e * 2 ^ 24) OR w :: uint32"
  have ue: "uint (word_of_nat (e * 2 ^ 24) :: uint32) = int e * 2 ^ 24"
  proof -
    have "uint (word_of_nat (e * 2 ^ 24) :: uint32) = int (e * 2 ^ 24) mod 2 ^ 32"
      by (rule uint_word_of_nat32)
    also have "\<dots> = int e * 2 ^ 24"
      using e by simp
    finally show ?thesis .
  qed
  have uc: "uint ?c = int e * 16777216 + uint w"
  proof -
    have "uint ?c = uint (word_of_nat (e * 2 ^ 24) :: uint32) OR uint w"
      by (rule uint_or)
    also have "\<dots> = int e * 2 ^ 24 OR uint w"
      by (simp only: ue)
    also have "\<dots> = int e * 2 ^ 24 + uint w"
      using w by (intro or_shift_add) auto
    finally show ?thesis by simp
  qed
  have m: "uint (?c AND 0x007fffff) = uint w"
    using w by (simp only: uint_and uc) (simp add: and_mask23 arith_pack)
  then have m': "?c AND 0x007fffff = w"
    by (simp add: word_uint_eq_iff)
  have neg: "?c AND 0x00800000 = 0"
    using w by (simp only: word32_eq_0_iff uint_and uc) (simp add: and_bit23 arith_pack)
  have ex: "unat (drop_bit 24 ?c) = e"
    using w by (simp only: unat_eq_nat_uint uint_drop_bit32 uc) (simp add: arith_pack)
  show ?thesis
    unfolding CompactToBig_def Let_def m' neg ex
    by (simp add: uint_drop_bit32)
qed


lemma byte_length_bounds:
  "0 < n \<Longrightarrow> 256 ^ (byte_length n - 1) \<le> n \<and> n < 256 ^ byte_length n \<and> 0 < byte_length n"
proof (induction n rule: byte_length.induct)
  case (1 n)
  show ?case
  proof (cases "n div 256 = 0")
    case True
    then have "n < 256" using 1(2)
      by (simp add: zdiv_eq_0_iff)
    then show ?thesis using 1(2) True
      by (simp add: byte_length.simps [of n] byte_length.simps [of 0])
  next
    case False
    then have pos: "0 < n div 256"
      using 1(2) pos_imp_zdiv_nonneg_iff [of 256 n] by linarith
    have IH: "256 ^ (byte_length (n div 256) - 1) \<le> n div 256"
             "n div 256 < 256 ^ byte_length (n div 256)" "0 < byte_length (n div 256)"
      using 1(1) 1(2) pos by auto
    have bl: "byte_length n = Suc (byte_length (n div 256))"
      using 1(2) by (simp add: byte_length.simps [of n])
    obtain k where k: "byte_length (n div 256) = Suc k"
      using IH(3) by (cases "byte_length (n div 256)") auto
    have lo: "256 * (n div 256) \<le> n" by simp
    have hi: "n < 256 * (n div 256 + 1)"
      using mult_div_mod_eq [of 256 n] pos_mod_bound [of 256 n] by simp
    have "256 ^ Suc k \<le> 256 * (n div 256)" using IH(1) k by simp
    moreover have "256 * (n div 256 + 1) \<le> 256 * 256 ^ Suc k"
      using IH(2) k by simp
    ultimately show ?thesis using lo hi bl k by simp
  qed
qed

lemma drop_bytes_char:
  "n div 256 ^ k < 2 ^ 23 \<Longrightarrow> (\<forall>j<k. 2 ^ 23 \<le> n div 256 ^ j) \<Longrightarrow> drop_bytes n = k"
proof (induction k arbitrary: n)
  case 0
  then show ?case by (simp add: drop_bytes.simps [of n])
next
  case (Suc k)
  have big: "2 ^ 23 \<le> n" using Suc.prems(2) [rule_format, of 0] by simp
  have a: "(n div 256) div 256 ^ k < 2 ^ 23"
    using Suc.prems(1) by (simp add: zdiv_zmult2_eq)
  have b: "\<forall>j<k. 2 ^ 23 \<le> (n div 256) div 256 ^ j"
  proof (intro allI impI)
    fix j assume "j < k"
    then have "2 ^ 23 \<le> n div 256 ^ Suc j" using Suc.prems(2) by auto
    then show "2 ^ 23 \<le> (n div 256) div 256 ^ j" by (simp add: zdiv_zmult2_eq)
  qed
  have "drop_bytes (n div 256) = k" using Suc.IH [OF a b] .
  then show ?case using big by (simp add: drop_bytes.simps [of n])
qed

lemma drop_bytes_step:
  assumes "n div 256 ^ Suc k < 2 ^ 23" "2 ^ 23 \<le> n div 256 ^ k"
  shows "drop_bytes n = Suc k"
proof (rule drop_bytes_char [OF assms(1)], intro allI impI)
  fix j assume "j < Suc k"
  then have le: "(256::int) ^ j \<le> 256 ^ k" by (simp add: power_increasing)
  have n0: "0 \<le> n"
  proof (rule ccontr)
    assume "\<not> 0 \<le> n"
    then have "n div 256 ^ k < 0" by (simp add: pos_imp_zdiv_neg_iff)
    then show False using assms(2) by simp
  qed
  have "n div 256 ^ k \<le> n div 256 ^ j"
    using n0 le by (intro zdiv_mono2) auto
  then show "2 ^ 23 \<le> n div 256 ^ j" using assms(2) by simp
qed


lemma bit23_test:
  fixes w :: uint32
  assumes "uint w < 2 ^ 24"
  shows "(w AND 0x00800000 \<noteq> 0) = (2 ^ 23 \<le> uint w)"
proof -
  have "(w AND 0x00800000 = 0) = even (uint w div 2 ^ 23)"
    by (simp only: word32_eq_0_iff uint_and) (simp add: and_bit23)
  moreover have "uint w div 2 ^ 23 = (if 2 ^ 23 \<le> uint w then 1 else 0)"
    using assms uint_ge_0 [of w] by (auto simp: div_pos_pos_trivial intro!: int_div_pos_eq [where r = "uint w - 2 ^ 23"])
  ultimately show ?thesis by simp
qed

lemma BigToCompact_pos:
  assumes "0 < n"
  shows "BigToCompact n =
     (let exponent = byte_length n;
          mantissa = (if exponent \<le> 3
                      then push_bit (8 * (3 - exponent)) (word_of_int n)
                      else word_of_int (n div 2 ^ (8 * (exponent - 3))))
      in if mantissa AND 0x00800000 \<noteq> 0
         then word_of_nat ((exponent + 1) * 2 ^ 24) OR drop_bit 8 mantissa
         else word_of_nat (exponent * 2 ^ 24) OR mantissa)"
proof -
  have a: "\<bar>n\<bar> = n" using assms by simp
  have d: "\<bar>n div 2 ^ k\<bar> = n div 2 ^ k" for k
    using assms by (simp add: pos_imp_zdiv_nonneg_iff)
  show ?thesis using assms
    by (simp add: BigToCompact_def big_Bytes_len_def big_Bits0_uint32_def Let_def a d)
qed


lemma pow256: "(2::int) ^ (8 * k) = 256 ^ k"
  by (simp add: power_mult)

lemma truncate_small: "n < 2 ^ 23 \<Longrightarrow> truncate_mantissa n = n"
  by (simp add: truncate_mantissa_def drop_bytes.simps [of n])

lemma truncate_step:
  assumes "n div 256 ^ Suc k < 2 ^ 23" "2 ^ 23 \<le> n div 256 ^ k"
  shows "truncate_mantissa n = (n div 256 ^ Suc k) * 256 ^ Suc k"
  unfolding truncate_mantissa_def drop_bytes_step [OF assms] ..

lemma roundtrip_short:
  assumes n: "0 < n" and L: "byte_length n = L" and L3: "L \<le> 3"
  shows "CompactToBig (BigToCompact n) = truncate_mantissa n"
proof -
  have Lb: "n < 256 ^ L" "0 < L"
    using byte_length_bounds [OF n] L by auto
  define k where "k = 8 * (3 - L)"
  define w where "w = (push_bit k (word_of_int n) :: uint32)"
  define M where "M = n * 256 ^ (3 - L)"
  have M0: "0 \<le> M" using n by (simp add: M_def)
  have "M < 256 ^ L * 256 ^ (3 - L)"
    unfolding M_def using Lb(1) by (intro mult_strict_right_mono) auto
  also have "\<dots> = 256 ^ 3"
    using L3 by (simp flip: power_add)
  finally have M24: "M < 2 ^ 24" by simp
  have n32: "n < 2 ^ 32"
  proof -
    have "n \<le> M" unfolding M_def using n by (simp add: mult_le_cancel_left1)
    then show ?thesis using M24 by simp
  qed
  have nM: "n \<le> M" unfolding M_def using n by (simp add: mult_le_cancel_left1)
  have uw: "uint w = M"
  proof -
    have "uint w = (uint (word_of_int n :: uint32) * 2 ^ k) mod 2 ^ 32"
      unfolding w_def by (rule uint_push_bit32)
    also have "uint (word_of_int n :: uint32) = n"
      using n n32 by (intro uint32_of_small) auto
    also have "n * 2 ^ k = M" by (simp add: k_def M_def pow256)
    also have "M mod 2 ^ 32 = M" using M0 M24 by simp
    finally show ?thesis .
  qed
  have enc: "BigToCompact n =
      (if w AND 0x00800000 \<noteq> 0
       then word_of_nat ((L + 1) * 2 ^ 24) OR drop_bit 8 w
       else word_of_nat (L * 2 ^ 24) OR w)"
    using L3 by (simp add: BigToCompact_pos [OF n] L Let_def w_def k_def)
  have test: "(w AND 0x00800000 \<noteq> 0) = (2 ^ 23 \<le> M)"
    using bit23_test [of w] M24 by (simp add: uw)
  show ?thesis
  proof (cases "2 ^ 23 \<le> M")
    case False
    then have e: "BigToCompact n = word_of_nat (L * 2 ^ 24) OR w"
      by (simp only: enc test if_False)
    have "CompactToBig (word_of_nat (L * 2 ^ 24) OR w) =
        (if L \<le> 3 then uint w div 2 ^ (8 * (3 - L)) else uint w * 2 ^ (8 * (L - 3)))"
      using L3 False by (intro decode_pack) (simp_all add: uw)
    then have "CompactToBig (BigToCompact n) = uint w div 2 ^ (8 * (3 - L))"
      unfolding e using L3 by (simp only: if_True)
    also have "\<dots> = n" by (simp add: uw M_def pow256)
    finally show ?thesis using False nM by (simp add: truncate_small)
  next
    case True
    then have e: "BigToCompact n = word_of_nat ((L + 1) * 2 ^ 24) OR drop_bit 8 w"
      by (simp only: enc test if_True)
    have ud: "uint (drop_bit 8 w) = M div 256"
      by (simp add: uint_drop_bit32 uw)
    have ud23: "uint (drop_bit 8 w) < 2 ^ 23"
      using M24 by (simp add: ud)
    have dec: "CompactToBig (word_of_nat ((L + 1) * 2 ^ 24) OR drop_bit 8 w) =
          (if L + 1 \<le> 3 then (M div 256) div 2 ^ (8 * (3 - (L + 1)))
           else (M div 256) * 2 ^ (8 * (L + 1 - 3)))"
      using decode_pack [of "L + 1" "drop_bit 8 w"] L3 ud23 by (simp only: ud)
    have rt: "CompactToBig (BigToCompact n) =
          (if L + 1 \<le> 3 then (M div 256) div 2 ^ (8 * (3 - (L + 1)))
           else (M div 256) * 2 ^ (8 * (L + 1 - 3)))"
      unfolding e by (rule dec)
    show ?thesis
    proof (cases "L = 3")
      case True
      then have Mn: "M = n" by (simp add: M_def)
      have "truncate_mantissa n = (n div 256 ^ Suc 0) * 256 ^ Suc 0"
        using \<open>2 ^ 23 \<le> M\<close> M24 by (intro truncate_step) (simp_all add: Mn)
      then show ?thesis using True by (simp add: rt Mn)
    next
      case False
      then obtain j where j: "3 - L = Suc j" "3 - (L + 1) = j" "2 - L = j"
        using L3 by (cases "3 - L") auto
      have "M div 256 = n * 256 ^ j" by (simp add: M_def j)
      then have "(M div 256) div 2 ^ (8 * (3 - (L + 1))) = n" by (simp add: j pow256)
      moreover have "n < 2 ^ 23"
      proof -
        have "L \<le> 2" using False L3 by simp
        then have "(256::int) ^ L \<le> 256 ^ 2" by (intro power_increasing) auto
        then show ?thesis using Lb(1) by simp
      qed
      ultimately show ?thesis using False L3 by (simp add: rt truncate_small)
    qed
  qed
qed


lemma int_div_less:
  fixes a b c :: int
  assumes "0 < b" "a < c * b"
  shows "a div b < c"
proof -
  have "a div b * b \<le> a"
    using div_mult_mod_eq [of a b] pos_mod_sign [OF assms(1), of a] by linarith
  then have "a div b * b < c * b" using assms(2) by simp
  then show ?thesis using assms(1) by (simp add: mult_less_cancel_right)
qed

lemma int_le_div:
  fixes a b c :: int
  assumes "0 < b" "c * b \<le> a"
  shows "c \<le> a div b"
proof -
  have "(c * b) div b \<le> a div b" using assms by (intro zdiv_mono1) auto
  then show ?thesis using assms(1) by simp
qed

lemma roundtrip_long:
  assumes n: "0 < n" and L: "byte_length n = L" and L3: "3 < L" and L32: "L \<le> 32"
  shows "CompactToBig (BigToCompact n) = truncate_mantissa n"
proof -
  define k where "k = L - 4"
  have k: "L = Suc (Suc (Suc (Suc k)))"
    using L3 by (simp add: k_def)
  have Lb: "256 ^ (L - 1) \<le> n" "n < 256 ^ L"
    using byte_length_bounds [OF n] L by auto
  have p: "(2::int) ^ (8 * (L - 3)) = 256 ^ Suc k"
  proof -
    have "L - 3 = Suc k" by (simp add: k)
    then show ?thesis using pow256 [of "L - 3"] by simp
  qed
  have p': "(2::int) ^ (8 * (L + 1 - 3)) = 256 ^ Suc (Suc k)"
  proof -
    have "L + 1 - 3 = Suc (Suc k)" by (simp add: k)
    then show ?thesis using pow256 [of "L + 1 - 3"] by simp
  qed
  define M where "M = n div 256 ^ Suc k"
  define w where "w = (word_of_int M :: uint32)"
  have Mhi: "M < 2 ^ 24"
  proof -
    have "n < 256 ^ 3 * 256 ^ Suc k" using Lb(2) k by simp
    then have "n div 256 ^ Suc k < 256 ^ 3"
      by (intro int_div_less) simp_all
    then show ?thesis by (simp add: M_def)
  qed
  have lo: "2 ^ 24 \<le> n div 256 ^ k"
  proof -
    have "256 ^ 3 * 256 ^ k \<le> n" using Lb(1) k by simp
    then have "256 ^ 3 \<le> n div 256 ^ k"
      by (intro int_le_div) simp_all
    then show ?thesis by simp
  qed
  have M0: "0 \<le> M" using n by (simp add: M_def pos_imp_zdiv_nonneg_iff)
  have uw: "uint w = M"
    unfolding w_def using M0 Mhi by (intro uint32_of_small) auto
  have enc: "BigToCompact n =
      (if w AND 0x00800000 \<noteq> 0
       then word_of_nat ((L + 1) * 2 ^ 24) OR drop_bit 8 w
       else word_of_nat (L * 2 ^ 24) OR w)"
    using L3 by (simp add: BigToCompact_pos [OF n] L Let_def w_def M_def p)
  have test: "(w AND 0x00800000 \<noteq> 0) = (2 ^ 23 \<le> M)"
    using bit23_test [of w] Mhi by (simp add: uw)
  show ?thesis
  proof (cases "2 ^ 23 \<le> M")
    case False
    then have e: "BigToCompact n = word_of_nat (L * 2 ^ 24) OR w"
      by (simp only: enc test if_False)
    have "CompactToBig (word_of_nat (L * 2 ^ 24) OR w) =
        (if L \<le> 3 then uint w div 2 ^ (8 * (3 - L)) else uint w * 2 ^ (8 * (L - 3)))"
      using L32 False by (intro decode_pack) (simp_all add: uw)
    then have "CompactToBig (BigToCompact n) = uint w * 2 ^ (8 * (L - 3))"
      unfolding e using L3 by simp
    also have "\<dots> = (n div 256 ^ Suc k) * 256 ^ Suc k"
      by (simp only: uw M_def p)
    also have "\<dots> = truncate_mantissa n"
      using False lo by (intro truncate_step [symmetric]) (simp_all add: M_def)
    finally show ?thesis .
  next
    case True
    then have e: "BigToCompact n = word_of_nat ((L + 1) * 2 ^ 24) OR drop_bit 8 w"
      by (simp only: enc test if_True)
    have ud: "uint (drop_bit 8 w) = n div 256 ^ Suc (Suc k)"
    proof -
      have "uint (drop_bit 8 w) = M div 2 ^ 8"
        by (simp only: uint_drop_bit32 uw)
      also have "\<dots> = n div (256 ^ Suc k * 2 ^ 8)"
        unfolding M_def by (rule zdiv_zmult2_eq [symmetric]) simp
      also have "(256::int) ^ Suc k * 2 ^ 8 = 256 ^ Suc (Suc k)" by simp
      finally show ?thesis .
    qed
    have ud23: "uint (drop_bit 8 w) < 2 ^ 23"
      using Mhi by (simp add: uint_drop_bit32 uw)
    have "CompactToBig (word_of_nat ((L + 1) * 2 ^ 24) OR drop_bit 8 w) =
          (if L + 1 \<le> 3 then uint (drop_bit 8 w) div 2 ^ (8 * (3 - (L + 1)))
           else uint (drop_bit 8 w) * 2 ^ (8 * (L + 1 - 3)))"
      using L32 ud23 by (intro decode_pack) simp_all
    then have "CompactToBig (BigToCompact n) = uint (drop_bit 8 w) * 2 ^ (8 * (L + 1 - 3))"
      unfolding e using L3 by simp
    also have "\<dots> = (n div 256 ^ Suc (Suc k)) * 256 ^ Suc (Suc k)"
      by (simp only: ud p')
    also have "\<dots> = truncate_mantissa n"
      using True ud ud23 by (intro truncate_step [symmetric]) (simp_all add: M_def)
    finally show ?thesis .
  qed
qed

text \<open>
  Claim C9.  For every positive \<open>n \<le> 2^256 - 1\<close>, \<open>CompactToBig (BigToCompact n)\<close> is
  \<open>n\<close> truncated to the mantissa the compact form keeps: low-order bytes of \<open>n\<close> are
  dropped until the rest fits 23 bits, and zero bytes stand in their place.  So the round
  trip is exact when \<open>n\<close> itself fits the 23 bits, and otherwise all bits below the
  encoded mantissa are zero, the extra byte dropped when the top bit of a three-byte
  mantissa would be the sign bit included.
\<close>

theorem compact_roundtrip:
  assumes "0 < n" "n \<le> 2 ^ 256 - 1"
  shows "CompactToBig (BigToCompact n) = truncate_mantissa n"
proof -
  have b: "256 ^ (byte_length n - 1) \<le> n" "0 < byte_length n"
    using byte_length_bounds [OF assms(1)] by auto
  have lt: "(256::int) ^ (byte_length n - 1) < 256 ^ 32"
    using b(1) assms(2) by simp
  have one: "(1::int) < 256" by simp
  have "byte_length n - 1 < 32"
    by (rule power_less_imp_less_exp [OF one lt])
  then have L32: "byte_length n \<le> 32" by simp
  show ?thesis
  proof (cases "byte_length n \<le> 3")
    case True
    then show ?thesis using roundtrip_short [OF assms(1) refl] by simp
  next
    case False
    then show ?thesis using roundtrip_long [OF assms(1) refl _ L32] by simp
  qed
qed

theorem compact_roundtrip_witness:
  "CompactToBig (BigToCompact 0x1234567890) = 0x1234560000 \<and>
   CompactToBig (BigToCompact 0x800001) = 0x800000 \<and>
   CompactToBig (BigToCompact 0x7fffff) = 0x7fffff"
  using compact_roundtrip [of "0x1234567890"] compact_roundtrip [of "0x800001"]
    compact_roundtrip [of "0x7fffff"]
  by (simp add: truncate_mantissa_def drop_bytes.simps)

section \<open>Difficulty retargeting: the formula and its domain\<close>

lemma big_Div_pos: "0 < y \<Longrightarrow> big_Div x y = x div y"
  by (simp add: big_Div_def)

lemma spec_x_30: "sint t - sint (timestamp P) = 30 \<Longrightarrow> spec_x P t = 0"
  by (simp add: spec_x_def)

lemma spec_x_ge: "- 99 \<le> spec_x P t"
  by (simp add: spec_x_def)

text \<open>
  A parent difficulty of at least 5 keeps the new difficulty positive, whatever the block
  times are: the division by \<open>newDifficulty\<close> is then defined and is the ordinary
  quotient.
\<close>

lemma spec_newD_pos:
  assumes "5 \<le> spec_diff P"
  shows "0 < spec_newD P t"
proof -
  let ?d = "spec_diff P"
  have "?d * (- 99) \<le> ?d * spec_x P t"
    using assms spec_x_ge [of P t] by (intro mult_left_mono) auto
  then have "(?d * (- 99)) div 128 \<le> (?d * spec_x P t) div 128"
    by (intro zdiv_mono1) auto
  moreover have "- ?d < (?d * (- 99)) div 128"
    using assms by simp
  ultimately show ?thesis by (simp add: spec_newD_def)
qed

text \<open>
  Claim C4, as amended.  For a parent node \<open>P\<close> (with its own parent when its height is
  not 0) on a chain with difficulty adjustment, and a block time \<open>t\<close> for which
  \<open>newD\<close> is not 0, \<open>calcNextRequiredDifficulty\<close> returns \<open>BigToCompact\<close> of
  \<open>min(pow_limit, (2^256 - newD) / newD)\<close>, where \<open>x\<close>, \<open>diff\<close> and \<open>newD\<close> are the spec's
  and the division is that of \<open>big.Int.Div\<close> (the ordinary quotient for \<open>newD > 0\<close>);
  and when \<open>t\<close> is 30 seconds after the parent's time, \<open>newD\<close> is \<open>diff\<close>.
\<close>

theorem calcNextRequiredDifficulty_formula:
  assumes adj: "\<not> NoDifficultyAdjustment params"
    and par: "height P = 0 \<or> parent P = Some Q"
    and nz: "spec_newD P t \<noteq> 0"
  shows "calcNextRequiredDifficulty params (Some P) t =
           Ok (BigToCompact (min (PowLimit params)
                 (big_Div (2 ^ 256 - spec_newD P t) (spec_newD P t)))) \<and>
         (sint t - sint (timestamp P) = 30 \<longrightarrow> spec_newD P t = spec_diff P)"
proof -
  have x: "(if 1 - big_Div (sint t - sint (timestamp P)) 30 < - 99 then - 99
            else 1 - big_Div (sint t - sint (timestamp P)) 30) = spec_x P t"
    by (simp add: spec_x_def big_Div_def max_def)
  have d: "(if height P \<noteq> 0
            then (case RelativeAncestor1 P of
                    None \<Rightarrow> Panic NilPointerDereference
                  | Some p \<Rightarrow> Ok (workSum P - workSum p))
            else Ok (workSum P)) = Ok (spec_diff P)"
    using par by (auto simp: spec_diff_def RelativeAncestor1_def)
  have n: "spec_diff P + big_Div (spec_diff P * spec_x P t) DifficultyBoundDivisor = spec_newD P t"
    by (simp add: spec_newD_def big_Div_def DifficultyBoundDivisor_def)
  have m: "(if PowLimit params < v then PowLimit params else v) = min (PowLimit params) v" for v
    by (simp add: min_def)
  have "calcNextRequiredDifficulty params (Some P) t =
          Ok (BigToCompact (min (PowLimit params)
                (big_Div (2 ^ 256 - spec_newD P t) (spec_newD P t))))"
    unfolding calcNextRequiredDifficulty_def Let_def
    using adj nz by (simp only: option.case if_False x d and_then.simps n m)
  moreover have "sint t - sint (timestamp P) = 30 \<longrightarrow> spec_newD P t = spec_diff P"
    by (simp add: spec_newD_def spec_x_30)
  ultimately show ?thesis by simp
qed

text \<open>
  The work of one block at the regression-test proof-of-work limit \<open>0x207fffff\<close> is 2.
\<close>

lemma CalcWork_regtest: "CalcWork 0x207fffff = 2"
  by (simp add: CalcWork_def CompactToBig_def big_Div_def Let_def)


theorem calcNextRequiredDifficulty_formula_witness:
  "calcNextRequiredDifficulty example_params (Some example_node) 60 =
     Ok (BigToCompact (2 ^ 255 - 1)) \<and>
   spec_newD example_node 60 = 2 \<and> spec_diff example_node = 2"
proof -
  have n: "spec_newD example_node 60 = 2"
    by (simp add: spec_newD_def spec_diff_def spec_x_def example_node_def example_genesis_def)
  have "\<not> NoDifficultyAdjustment example_params"
    by (simp add: example_params_def)
  moreover have "height example_node = 0 \<or> parent example_node = Some example_genesis"
    by (simp add: example_node_def)
  moreover have "spec_newD example_node 60 \<noteq> 0"
    by (simp add: n)
  ultimately have "calcNextRequiredDifficulty example_params (Some example_node) 60 =
      Ok (BigToCompact (min (PowLimit example_params)
            (big_Div (2 ^ 256 - spec_newD example_node 60) (spec_newD example_node 60))))"
    using calcNextRequiredDifficulty_formula
      [of example_params example_node example_genesis 60] by blast
  moreover have "min (PowLimit example_params) (big_Div (2 ^ 256 - 2) 2) = 2 ^ 255 - 1"
    by (simp add: example_params_def big_Div_def)
  moreover have "spec_diff example_node = 2"
    by (simp add: spec_diff_def example_node_def example_genesis_def)
  ultimately show ?thesis by (simp add: n)
qed

text \<open>
  The claim as stated fails: it promises a result for every parent node and block time.
  Here the parent's difficulty is 2 (the work of a block at the regression-test limit)
  and the new block comes 1980 seconds after it: \<open>x = -65\<close>, \<open>newD = 0\<close>, and the division
  by \<open>newDifficulty\<close> panics.
\<close>

theorem calcNextRequiredDifficulty_counterexample:
  "calcNextRequiredDifficulty example_params (Some example_node) 2010 =
     Panic IntegerDivideByZero"
  by (simp add: calcNextRequiredDifficulty_def example_params_def example_node_def
      example_genesis_def RelativeAncestor1_def big_Div_def DifficultyBoundDivisor_def Let_def)


section \<open>The ordering check of CheckBlockEntangle never fires\<close>

lemma max_entangle_height_fold:
  "\<not> acc <s 0 \<Longrightarrow>
   \<not> foldl (\<lambda>max' ii. if max' <s Height ii then Height ii else max') acc hs <s 0"
proof (induction hs arbitrary: acc)
  case Nil
  then show ?case by simp
next
  case (Cons h hs)
  have "\<not> (if acc <s Height h then Height h else acc) <s 0"
    using Cons.prems by (auto simp: word_sless_alt)
  then show ?case using Cons.IH by simp
qed

lemma max_entangle_height_nonneg: "\<not> max_entangle_height einfos <s 0"
  unfolding max_entangle_height_def by (rule max_entangle_height_fold) simp

lemma VerifyEntangleTx_cache_not_unordered:
  "VerifyEntangleTx_cache fetch tx a einfos \<noteq> Err (ErrorsNew ''unordered entangle tx in the block'')"
  by (induction fetch tx a einfos rule: VerifyEntangleTx_cache.induct) auto

lemma VerifyEntangleTx_verify_not_unordered:
  "VerifyEntangleTx_verify x ev pairs einfos \<noteq> Err (ErrorsNew ''unordered entangle tx in the block'')"
  by (induction x ev pairs einfos rule: VerifyEntangleTx_verify.induct)
     (auto split: result.splits)

lemma checkEntangleTx_not_unordered:
  "checkEntangleTx b x tx \<noteq> Err (ErrorsNew ''unordered entangle tx in the block'')"
proof -
  have "VerifyEntangleTx x (GetEntangleVerify b) tx \<noteq>
          Err (ErrorsNew ''unordered entangle tx in the block'')"
    using VerifyEntangleTx_cache_not_unordered VerifyEntangleTx_verify_not_unordered
    by (auto simp: VerifyEntangleTx_def and_then_eq_Err_iff split: option.splits)
  then show ?thesis
    by (auto simp: checkEntangleTx_def split: result.splits)
qed

text \<open>
  Whatever the block holds, \<open>CheckBlockEntangle\<close> does not return the error of the
  ordering check: \<open>curHeight\<close> stays 0 and no maximum is below 0.
\<close>

lemma CheckBlockEntangle_loop_not_unordered:
  "CheckBlockEntangle_loop b x 0 txs \<noteq> Err (ErrorsNew ''unordered entangle tx in the block'')"
proof (induction txs)
  case Nil
  then show ?case by simp
next
  case (Cons tx txs)
  show ?case
    using Cons.IH checkEntangleTx_not_unordered [of b x tx] max_entangle_height_nonneg
    by (auto simp: Let_def split: option.splits result.splits)
qed

lemma CheckBlockEntangle_not_unordered:
  "CheckBlockEntangle b x block \<noteq> Err (ErrorsNew ''unordered entangle tx in the block'')"
  unfolding CheckBlockEntangle_def by (rule CheckBlockEntangle_loop_not_unordered)

lemma example_checkEntangleTx:
  "checkEntangleTx example_chain example_extern (example_tx 0 [9]) = Ok ()"
  "checkEntangleTx example_chain example_extern (example_tx 0 [5]) = Ok ()"
  by (simp_all add: checkEntangleTx_def VerifyEntangleTx_def example_chain_def example_extern_def
      example_IsEntangleTx_def example_tx_def example_verify_def verifyTx_def verifyDogeTx_def
      pick_client_def verifyDogeTx_with_def example_client_def example_foreign_tx_def
      big_Int64_def dogeMaturity_def ExpandedTxEntangle_Doge_def dogePoolAddr_def Let_def
      word_sless_alt)

text \<open>
  Claim C2 at a concrete block.  The first transaction carries an entangle info of height
  9, the second one of height 5, and both verify.  The claim asks for the error
  "unordered entangle tx in the block"; \<open>CheckBlockEntangle\<close> returns nil.
\<close>

theorem CheckBlockEntangle_accepts_decreasing_heights:
  "map_option max_entangle_height (IsEntangleTx example_extern (example_tx 0 [9])) = Some 9 \<and>
   map_option max_entangle_height (IsEntangleTx example_extern (example_tx 0 [5])) = Some 5 \<and>
   CheckBlockEntangle example_chain example_extern
     \<lparr>PrevBlock = [], Transactions = [example_tx 0 [9], example_tx 0 [5]], block_Height = 11\<rparr>
   = Ok ()"
proof -
  have a: "IsEntangleTx example_extern (example_tx 0 [h]) =
        Some [(0, \<lparr>ExTxType = ExpandedTxEntangle_Doge, info_Index = 0, Height = ucast h,
                   Amount = 0, ExtTxHash = []\<rparr>)]" for h
    by (simp add: example_extern_def example_IsEntangleTx_def example_tx_def)
  show ?thesis
    by (simp add: CheckBlockEntangle_def a example_checkEntangleTx max_entangle_height_def
        word_sless_alt)
qed


end
